theory Spec2Isabelle
  imports Main
begin

section \<open>Career Redirector: the resolution cascade of app.py\<close>

text \<open>
  The program resolves a company name or a URL to the company's homepage and its careers
  page. It is a cascade of heuristics over the network, a search engine and a language
  model. The embedding keeps the control flow of each function of app.py and makes the
  rest explicit:
  \<^item> a Python exception is the left summand of a result, and a \<^verbatim>\<open>try ... except Exception\<close>
    block is \<open>io_try\<close>;
  \<^item> every request sent to the outside (HEAD, GET, search, language model) is recorded in
    a log, so that "is issued", "is tried" and "is skipped" are statements about the log;
  \<^item> the outcome of a request is a function of the request (\<open>world\<close>: the network and the
    model as they are while one input is resolved);
  \<^item> the functions of the Python libraries that app.py calls (urllib, re, json, bs4, the
    string methods that depend on Unicode tables) are the fields of \<open>pylib\<close>.
\<close>

subsection \<open>Values, exceptions, requests\<close>

text \<open>What \<^verbatim>\<open>json.loads\<close> returns; \<open>JNull\<close> is Python's \<^verbatim>\<open>None\<close>. Of a number the program
  only takes the truth value (zero or not), so a number is kept as an integer.\<close>

datatype json =
    JNull
  | JBool bool
  | JNum int
  | JStr string
  | JArr "json list"
  | JObj "(string \<times> json) list"

datatype exn =
    TypeError
  | ValueError
  | AttributeError
  | JSONDecodeError
  | TransportError
  | APIError

datatype event =
    HEAD string
  | GET string
  | SEARCH string
  | CHAT_JSON string
  | CHAT_PLAIN string
  | RESPONSES string

type_synonym 'a io = "(exn + 'a) \<times> event list"

definition io_ret :: "'a \<Rightarrow> 'a io" where
  "io_ret x = (Inr x, [])"

definition io_raise :: "exn \<Rightarrow> 'a io" where
  "io_raise e = (Inl e, [])"

text \<open>A library call: no request, it returns or raises.\<close>

definition io_lib :: "exn + 'a \<Rightarrow> 'a io" where
  "io_lib r = (r, [])"

text \<open>A request to the outside: logged, then it returns or raises.\<close>

definition io_call :: "event \<Rightarrow> exn + 'a \<Rightarrow> 'a io" where
  "io_call ev r = (r, [ev])"

definition io_bind :: "'a io \<Rightarrow> ('a \<Rightarrow> 'b io) \<Rightarrow> 'b io" where
  "io_bind m f =
     (case m of
        (Inl e, l) \<Rightarrow> (Inl e, l)
      | (Inr x, l) \<Rightarrow> (case f x of (r, l') \<Rightarrow> (r, l @ l')))"

text \<open>\<^verbatim>\<open>try: m  except Exception: h\<close>\<close>

definition io_try :: "'a io \<Rightarrow> (exn \<Rightarrow> 'a io) \<Rightarrow> 'a io" where
  "io_try m h =
     (case m of
        (Inl e, l) \<Rightarrow> (case h e of (r, l') \<Rightarrow> (r, l @ l'))
      | (Inr x, l) \<Rightarrow> (Inr x, l))"

text \<open>Python's truth value of an object.\<close>

fun truthy :: "json \<Rightarrow> bool" where
  "truthy JNull = False"
| "truthy (JBool b) = b"
| "truthy (JNum n) = (n \<noteq> 0)"
| "truthy (JStr s) = (s \<noteq> [])"
| "truthy (JArr xs) = (xs \<noteq> [])"
| "truthy (JObj kvs) = (kvs \<noteq> [])"

text \<open>\<^verbatim>\<open>a or b\<close>\<close>

definition py_or :: "json \<Rightarrow> json \<Rightarrow> json" where
  "py_or a b = (if truthy a then a else b)"

text \<open>A function that returns \<^verbatim>\<open>str | None\<close>, seen as an object.\<close>

fun of_opt :: "string option \<Rightarrow> json" where
  "of_opt None = JNull"
| "of_opt (Some s) = JStr s"

text \<open>\<^verbatim>\<open>d.get(k)\<close> on a dict.\<close>

definition dict_get :: "(string \<times> json) list \<Rightarrow> string \<Rightarrow> json" where
  "dict_get d k = (case map_of d k of None \<Rightarrow> JNull | Some v \<Rightarrow> v)"

text \<open>\<^verbatim>\<open>x in s\<close> and \<^verbatim>\<open>s.endswith(x)\<close> on strings.\<close>

fun contains :: "string \<Rightarrow> string \<Rightarrow> bool" where
  "contains x [] = (x = [])"
| "contains x (c # s) = (take (length x) (c # s) = x \<or> contains x s)"

definition endswith :: "string \<Rightarrow> string \<Rightarrow> bool" where
  "endswith s x = (length x \<le> length s \<and> drop (length s - length x) s = x)"

subsection \<open>The libraries and the outside world\<close>

record parse_result =
  scheme :: string
  netloc :: string
  path :: string

record response =
  status_code :: int
  resp_text :: string

text \<open>An item of \<^verbatim>\<open>resp.output\<close> of the Responses API: the \<^verbatim>\<open>text.value\<close> of each
  element of its \<^verbatim>\<open>content\<close>, an item without \<^verbatim>\<open>content\<close>, or an item whose \<^verbatim>\<open>content\<close>
  cannot be iterated. In \<open>responses\<close>, \<open>output_text\<close> is \<^verbatim>\<open>resp.output_text\<close> (None when
  the attribute is missing) and \<open>output_items\<close> is \<^verbatim>\<open>resp.output\<close> (empty when missing).\<close>

datatype block = Content "string option list" | NoContent | Broken

record responses =
  output_text :: "string option"
  output_items :: "block list"

text \<open>
  The library functions, each at the arguments that app.py gives it:
  \<^item> \<open>urlparse\<close>, \<open>urljoin\<close>: of \<^verbatim>\<open>urllib.parse\<close>; both may raise ValueError;
  \<^item> \<open>str_strip\<close>, \<open>str_lower\<close>: \<^verbatim>\<open>s.strip()\<close>, \<^verbatim>\<open>s.lower()\<close>;
  \<^item> \<open>re_sub_legal\<close>: \<^verbatim>\<open>re.sub(r"\b(inc|inc\.|llc|corp|co\.|company|ltd)\b", "", s)\<close>;
  \<^item> \<open>re_sub_spaces\<close>: \<^verbatim>\<open>re.sub(r"\s+", " ", s)\<close>;
  \<^item> \<open>re_search_triple\<close>: \<^verbatim>\<open>m.group(0)\<close> of the \<^verbatim>\<open>re.search\<close> for an object with the three keys,
    None without a match;
  \<^item> \<open>json_loads\<close>: \<^verbatim>\<open>json.loads\<close> on a string;
  \<^item> \<open>soup_anchors\<close>: of the page, the \<^verbatim>\<open>href\<close> and the text of each \<^verbatim>\<open>find_all("a", href=True)\<close>;
  \<^item> \<open>soup_results\<close>: of the page, the \<^verbatim>\<open>a.get("href")\<close> of each \<^verbatim>\<open>select(".result__a")\<close>.
\<close>

record pylib =
  urlparse :: "string \<Rightarrow> exn + parse_result"
  urljoin :: "string \<Rightarrow> string \<Rightarrow> exn + string"
  str_strip :: "string \<Rightarrow> string"
  str_lower :: "string \<Rightarrow> string"
  re_sub_legal :: "string \<Rightarrow> string"
  re_sub_spaces :: "string \<Rightarrow> string"
  re_search_triple :: "string \<Rightarrow> string option"
  json_loads :: "string \<Rightarrow> exn + json"
  soup_anchors :: "string \<Rightarrow> exn + (string \<times> string) list"
  soup_results :: "string \<Rightarrow> exn + string option list"

text \<open>
  The outside, while one input is resolved:
  \<^item> \<open>openai_api_key\<close>: the environment variable, empty when it is not set;
  \<^item> \<open>http_head\<close>, \<open>http_get\<close>: the response of \<^verbatim>\<open>s.head(url)\<close> (its status code) and of
    \<^verbatim>\<open>s.get(url)\<close>, redirects followed, or the exception raised (DNS, TLS, timeout, a
    string that is no URL);
  \<^item> \<open>ddg_get\<close>: the response of the search page for a query;
  \<^item> \<open>chat_completions\<close>: \<^verbatim>\<open>resp.choices[0].message.content\<close> of
    \<^verbatim>\<open>client.chat.completions.create\<close> for a user text, with JSON mode (True) or without;
  \<^item> \<open>responses_create\<close>: the answer of \<^verbatim>\<open>client.responses.create\<close> for a user text.
  The model chosen in the sidebar is part of the world.
\<close>

record world =
  openai_api_key :: string
  http_head :: "string \<Rightarrow> exn + int"
  http_get :: "string \<Rightarrow> exn + response"
  ddg_get :: "string \<Rightarrow> exn + response"
  chat_completions :: "bool \<Rightarrow> string \<Rightarrow> exn + string option"
  responses_create :: "string \<Rightarrow> exn + responses"

subsection \<open>Helpers of app.py\<close>

definition COMMON_CAREER_PATHS :: "string list" where
  "COMMON_CAREER_PATHS =
     [''careers'', ''jobs'', ''company/careers'', ''about/careers'', ''about-us/careers'',
      ''career'', ''join-us'', ''work-with-us'']"

definition POPULAR_DOMAINS :: "(string \<times> string) list" where
  "POPULAR_DOMAINS =
     [(''google'', ''https://about.google''),
      (''microsoft'', ''https://www.microsoft.com''),
      (''apple'', ''https://www.apple.com''),
      (''amazon'', ''https://www.amazon.com''),
      (''meta'', ''https://about.meta.com''),
      (''netflix'', ''https://www.netflix.com''),
      (''tesla'', ''https://www.tesla.com''),
      (''nvidia'', ''https://www.nvidia.com''),
      (''openai'', ''https://openai.com''),
      (''uber'', ''https://www.uber.com''),
      (''airbnb'', ''https://www.airbnb.com''),
      (''stripe'', ''https://stripe.com''),
      (''salesforce'', ''https://www.salesforce.com''),
      (''oracle'', ''https://www.oracle.com'')]"

definition normalize_company :: "pylib \<Rightarrow> string \<Rightarrow> string" where
  "normalize_company L user_text =
     (let hint = str_lower L (str_strip L user_text);
          hint = re_sub_legal L hint;
          hint = str_strip L (re_sub_spaces L hint)
      in hint)"

definition is_valid_url :: "pylib \<Rightarrow> string \<Rightarrow> bool io" where
  "is_valid_url L url =
     io_try
       (io_bind (io_lib (urlparse L url)) (\<lambda>parsed.
          io_ret (scheme parsed \<in> set [''http'', ''https''] \<and> netloc parsed \<noteq> [])))
       (\<lambda>e. io_ret False)"

text \<open>\<^verbatim>\<open>s.head(url)\<close> and \<^verbatim>\<open>s.get(url)\<close> of an httpx client: httpx raises TypeError for a url
  that is not a string, before anything is sent.\<close>

definition httpx_head :: "world \<Rightarrow> json \<Rightarrow> int io" where
  "httpx_head W url =
     (case url of JStr s \<Rightarrow> io_call (HEAD s) (http_head W s) | _ \<Rightarrow> io_raise TypeError)"

definition httpx_get :: "world \<Rightarrow> json \<Rightarrow> response io" where
  "httpx_get W url =
     (case url of JStr s \<Rightarrow> io_call (GET s) (http_get W s) | _ \<Rightarrow> io_raise TypeError)"

definition safe_head :: "world \<Rightarrow> json \<Rightarrow> bool io" where
  "safe_head W url =
     io_try
       (io_bind (httpx_head W url) (\<lambda>r.
        io_bind (if r \<ge> 400 \<or> r = 405
                 then io_bind (httpx_get W url) (\<lambda>g. io_ret (status_code g))
                 else io_ret r) (\<lambda>r.
        io_ret (200 \<le> r \<and> r < 400))))
       (\<lambda>e. io_ret False)"

text \<open>The loop over \<open>COMMON_CAREER_PATHS\<close>: \<open>Some candidate\<close> is its \<^verbatim>\<open>return candidate\<close>,
  \<open>None\<close> is the loop running to its end. \<^verbatim>\<open>urljoin\<close> is outside any \<^verbatim>\<open>try\<close>.\<close>

fun try_paths :: "pylib \<Rightarrow> world \<Rightarrow> string \<Rightarrow> string list \<Rightarrow> string option io" where
  "try_paths L W domain_url [] = io_ret None"
| "try_paths L W domain_url (p # ps) =
     io_bind (io_lib (urljoin L domain_url p)) (\<lambda>candidate.
     io_bind (safe_head W (JStr candidate)) (\<lambda>ok.
       if ok then io_ret (Some candidate) else try_paths L W domain_url ps))"

text \<open>The loop over the anchors of the homepage, each given by its \<^verbatim>\<open>href\<close> and its text.\<close>

fun scan_anchors ::
  "pylib \<Rightarrow> world \<Rightarrow> string \<Rightarrow> (string \<times> string) list \<Rightarrow> string option io" where
  "scan_anchors L W domain_url [] = io_ret None"
| "scan_anchors L W domain_url ((href, txt) # as) =
     (let t = str_lower L txt in
      if contains ''career'' t \<or> contains ''job'' t \<or> contains ''join'' t
      then io_bind (io_lib (urljoin L domain_url href)) (\<lambda>candidate.
           io_bind (safe_head W (JStr candidate)) (\<lambda>ok.
             if ok then io_ret (Some candidate) else scan_anchors L W domain_url as))
      else scan_anchors L W domain_url as)"

definition scan_homepage :: "pylib \<Rightarrow> world \<Rightarrow> string \<Rightarrow> string option io" where
  "scan_homepage L W domain_url =
     io_try
       (io_bind (httpx_get W (JStr domain_url)) (\<lambda>r.
          if 200 \<le> status_code r \<and> status_code r < 400
          then io_bind (io_lib (soup_anchors L (resp_text r))) (\<lambda>as.
                 scan_anchors L W domain_url as)
          else io_ret None))
       (\<lambda>e. io_ret None)"

text \<open>The argument is an object: in the orchestrator it may come from the model's answer.
  An object that is not a string has no \<^verbatim>\<open>endswith\<close>.\<close>

definition discover_careers_from_domain :: "pylib \<Rightarrow> world \<Rightarrow> json \<Rightarrow> string option io" where
  "discover_careers_from_domain L W d =
     (case d of
        JStr s \<Rightarrow>
          (let domain_url = (if \<not> endswith s ''/'' then s @ ''/'' else s) in
           io_bind (try_paths L W domain_url COMMON_CAREER_PATHS) (\<lambda>found.
             case found of
               Some candidate \<Rightarrow> io_ret (Some candidate)
             | None \<Rightarrow> scan_homepage L W domain_url))
      | _ \<Rightarrow> io_raise AttributeError)"

text \<open>The first \<^verbatim>\<open>.result__a\<close> anchor whose \<^verbatim>\<open>href\<close> is there and names http or https.\<close>

fun first_result :: "string option list \<Rightarrow> string option" where
  "first_result [] = None"
| "first_result (None # hs) = first_result hs"
| "first_result (Some href # hs) =
     (if href \<noteq> [] \<and> (contains ''http://'' href \<or> contains ''https://'' href)
      then Some href else first_result hs)"

definition ddg_first_result :: "pylib \<Rightarrow> world \<Rightarrow> string \<Rightarrow> string option io" where
  "ddg_first_result L W query =
     io_try
       (io_bind (io_call (SEARCH query) (ddg_get W query)) (\<lambda>r.
          if status_code r \<noteq> 200 then io_ret None
          else io_bind (io_lib (soup_results L (resp_text r))) (\<lambda>hrefs.
                 io_ret (first_result hrefs))))
       (\<lambda>e. io_ret None)"

subsection \<open>The Company Resolver\<close>

text \<open>\<^verbatim>\<open>client\<close> is None when the API key is empty.\<close>

definition client :: "world \<Rightarrow> unit option" where
  "client W = (if openai_api_key W \<noteq> [] then Some () else None)"

text \<open>The dict that each attempt returns.\<close>

definition triple_of :: "(string \<times> json) list \<Rightarrow> (string \<times> json) list" where
  "triple_of data =
     [(''company'', dict_get data ''company''),
      (''official_website'', dict_get data ''official_website''),
      (''careers_url'', dict_get data ''careers_url'')]"

text \<open>\<^verbatim>\<open>json.loads(content)\<close>, where the content of a message may be None.\<close>

definition loads_content :: "pylib \<Rightarrow> string option \<Rightarrow> json io" where
  "loads_content L content =
     (case content of None \<Rightarrow> io_raise TypeError | Some s \<Rightarrow> io_lib (json_loads L s))"

text \<open>The handler of attempts 2 and 3 when \<^verbatim>\<open>json.loads\<close> has failed: \<^verbatim>\<open>re.search\<close> for an
  object with the three keys, \<^verbatim>\<open>json.loads\<close> of the match, \<^verbatim>\<open>{}\<close> without a match.\<close>

definition salvage :: "pylib \<Rightarrow> string option \<Rightarrow> json io" where
  "salvage L content =
     (case content of
        None \<Rightarrow> io_raise TypeError
      | Some s \<Rightarrow>
          (case re_search_triple L s of
             Some m \<Rightarrow> io_lib (json_loads L m)
           | None \<Rightarrow> io_ret (JObj [])))"

text \<open>Each attempt gives \<open>Some\<close> of the dict it returns, or \<open>None\<close> when control leaves its
  \<^verbatim>\<open>try\<close> statement without a \<^verbatim>\<open>return\<close>.\<close>

definition attempt1 :: "pylib \<Rightarrow> world \<Rightarrow> string \<Rightarrow> (string \<times> json) list option io" where
  "attempt1 L W user_text =
     io_try
       (io_bind (io_call (CHAT_JSON user_text) (chat_completions W True user_text)) (\<lambda>content.
        io_bind (loads_content L content) (\<lambda>data.
          case data of
            JObj d \<Rightarrow> io_ret (Some (triple_of d))
          | _ \<Rightarrow> io_raise AttributeError)))
       (\<lambda>e. io_ret None)"

definition attempt2 :: "pylib \<Rightarrow> world \<Rightarrow> string \<Rightarrow> (string \<times> json) list option io" where
  "attempt2 L W user_text =
     io_try
       (io_bind (io_call (CHAT_PLAIN user_text) (chat_completions W False user_text)) (\<lambda>content.
        io_bind (io_try (loads_content L content) (\<lambda>e. salvage L content)) (\<lambda>data.
          case data of
            JObj d \<Rightarrow> io_ret (Some (triple_of d))
          | _ \<Rightarrow> io_ret None)))
       (\<lambda>e. io_ret None)"

text \<open>The texts of the blocks of \<^verbatim>\<open>resp.output\<close>, up to a block that cannot be iterated (the
  inner \<^verbatim>\<open>try\<close> keeps what was collected before it).\<close>

fun block_texts :: "block list \<Rightarrow> string list" where
  "block_texts [] = []"
| "block_texts (Content cs # bs) =
     concat (map (\<lambda>t. case t of Some v \<Rightarrow> (if v \<noteq> [] then [v] else []) | None \<Rightarrow> []) cs)
       @ block_texts bs"
| "block_texts (NoContent # bs) = block_texts bs"
| "block_texts (Broken # bs) = []"

definition text_candidates :: "responses \<Rightarrow> string list" where
  "text_candidates resp =
     (case output_text resp of
        Some t \<Rightarrow> (if t \<noteq> [] then [t] else [])
      | None \<Rightarrow> [])
     @ block_texts (output_items resp)"

definition attempt3 :: "pylib \<Rightarrow> world \<Rightarrow> string \<Rightarrow> (string \<times> json) list option io" where
  "attempt3 L W user_text =
     io_try
       (io_bind (io_call (RESPONSES user_text) (responses_create W user_text)) (\<lambda>resp.
          let txt = (case filter (\<lambda>t. t \<noteq> []) (text_candidates resp) of
                       [] \<Rightarrow> [] | t # ts \<Rightarrow> t) in
          if txt \<noteq> []
          then io_bind (io_try (loads_content L (Some txt)) (\<lambda>e. salvage L (Some txt))) (\<lambda>data.
                 case data of
                   JObj d \<Rightarrow> io_ret (Some (triple_of d))
                 | _ \<Rightarrow> io_ret None)
          else io_ret None))
       (\<lambda>e. io_ret None)"

definition openai_guess_company_and_urls ::
  "pylib \<Rightarrow> world \<Rightarrow> string \<Rightarrow> (string \<times> json) list io" where
  "openai_guess_company_and_urls L W user_text =
     (if client W = None then io_ret []
      else
        io_bind (attempt1 L W user_text) (\<lambda>r1.
          case r1 of
            Some d \<Rightarrow> io_ret d
          | None \<Rightarrow>
              io_bind (attempt2 L W user_text) (\<lambda>r2.
                case r2 of
                  Some d \<Rightarrow> io_ret d
                | None \<Rightarrow>
                    io_bind (attempt3 L W user_text) (\<lambda>r3.
                      case r3 of
                        Some d \<Rightarrow> io_ret d
                      | None \<Rightarrow> io_ret []))))"

subsection \<open>The Resolution Orchestrator\<close>

text \<open>The debug dict: its values are strings or the resolver's dict.\<close>

datatype dbg = DStr string | DDict "(string \<times> json) list"

type_synonym resolution = "json \<times> json \<times> (string \<times> dbg) list"

text \<open>The body of \<^verbatim>\<open>if is_valid_url(user_text):\<close>.\<close>

definition direct_url :: "pylib \<Rightarrow> world \<Rightarrow> string \<Rightarrow> resolution io" where
  "direct_url L W user_text =
     io_bind (io_lib (urlparse L user_text)) (\<lambda>parsed.
       let official = scheme parsed @ ''://'' @ netloc parsed;
           careers = (if list_ex (\<lambda>x. contains x (str_lower L (path parsed))) [''career'', ''job'']
                      then JStr user_text else JNull)
       in
       io_bind (if \<not> truthy careers
                then io_bind (discover_careers_from_domain L W (JStr official)) (\<lambda>maybe.
                       io_ret (py_or (of_opt maybe) (JStr user_text)))
                else io_ret careers) (\<lambda>careers.
       io_ret (JStr official, careers, [(''mode'', DStr ''direct_url'')])))"

text \<open>The body of the loop \<^verbatim>\<open># 1) Popular shortcut\<close> at the first key that is in the hint.\<close>

definition popular_map :: "pylib \<Rightarrow> world \<Rightarrow> string \<Rightarrow> string \<Rightarrow> resolution io" where
  "popular_map L W key domain =
     io_bind (discover_careers_from_domain L W (JStr domain)) (\<lambda>discovered.
     io_bind (if truthy (of_opt discovered) then io_ret (of_opt discovered)
              else io_bind (ddg_first_result L W (key @ '' careers site'')) (\<lambda>found.
                     io_ret (of_opt found))) (\<lambda>careers.
     io_ret (JStr domain, careers, [(''mode'', DStr ''popular_map'')])))"

text \<open>\<^verbatim>\<open># 2) Ask OpenAI\<close>, from the resolver's dict \<open>ai\<close>: the official site is kept when it
  is reachable, the careers page is looked for on it when the resolver's one is missing or
  unreachable. The result is the pair of \<^verbatim>\<open>official\<close> and \<^verbatim>\<open>careers\<close> before step 3.\<close>

definition ask_openai :: "pylib \<Rightarrow> world \<Rightarrow> (string \<times> json) list \<Rightarrow> (json \<times> json) io" where
  "ask_openai L W ai =
     (let official = dict_get ai ''official_website'';
          careers = dict_get ai ''careers_url''
      in
      io_bind (if truthy official
               then io_bind (safe_head W official) (\<lambda>ok.
                      io_ret (if \<not> ok then JNull else official))
               else io_ret official) (\<lambda>official.
      io_bind (if truthy official
               then io_bind (if \<not> truthy careers then io_ret True
                             else io_bind (safe_head W careers) (\<lambda>ok. io_ret (\<not> ok))) (\<lambda>look.
                      if look
                      then io_bind (discover_careers_from_domain L W official) (\<lambda>discovered.
                             io_ret (if truthy (of_opt discovered) then of_opt discovered
                                     else careers))
                      else io_ret careers)
               else io_ret careers) (\<lambda>careers.
      io_ret (official, careers))))"

text \<open>\<^verbatim>\<open># 3) Search fallback\<close>, from \<^verbatim>\<open>official\<close> and \<^verbatim>\<open>careers\<close> as step 2 left them.\<close>

definition search_fallback ::
  "pylib \<Rightarrow> world \<Rightarrow> string \<Rightarrow> json \<Rightarrow> json \<Rightarrow> (json \<times> json) io" where
  "search_fallback L W hint official careers =
     io_bind (if \<not> truthy official
              then io_bind (ddg_first_result L W (hint @ '' official site'')) (\<lambda>homepage.
                     if truthy (of_opt homepage)
                     then io_bind (safe_head W (of_opt homepage)) (\<lambda>ok.
                            io_ret (if ok then of_opt homepage else official))
                     else io_ret official)
              else io_ret official) (\<lambda>official.
     io_bind (if \<not> truthy careers
              then io_bind (ddg_first_result L W (hint @ '' careers site'')) (\<lambda>found.
                     if truthy (of_opt found)
                     then io_bind (safe_head W (of_opt found)) (\<lambda>ok.
                            io_ret (if ok then of_opt found else careers))
                     else io_ret careers)
              else io_ret careers) (\<lambda>careers.
     io_ret (official, careers)))"

definition best_urls_from_all_signals :: "pylib \<Rightarrow> world \<Rightarrow> string \<Rightarrow> resolution io" where
  "best_urls_from_all_signals L W user_text =
     io_bind (is_valid_url L user_text) (\<lambda>valid.
     if valid then direct_url L W user_text
     else
       let hint = normalize_company L user_text in
       (case find (\<lambda>(key, domain). contains key hint) POPULAR_DOMAINS of
          Some (key, domain) \<Rightarrow> popular_map L W key domain
        | None \<Rightarrow>
            io_bind (openai_guess_company_and_urls L W user_text) (\<lambda>ai.
            io_bind (ask_openai L W ai) (\<lambda>(official, careers).
            io_bind (search_fallback L W hint official careers) (\<lambda>(official, careers).
            io_ret (official, careers, [(''hint'', DStr hint), (''openai_raw'', DDict ai)]))))))"

subsection \<open>The libraries on ASCII text\<close>

text \<open>
  The theorems about the program hold for every \<open>pylib\<close>. The scenarios are run with
  \<open>demo_lib\<close>: the string methods, the two substitutions of \<open>normalize_company\<close> and
  urllib's \<^verbatim>\<open>urlparse\<close> and \<^verbatim>\<open>urljoin\<close> (CPython 3.11) as they act on ASCII text, with the
  checks of the network location that raise ValueError (brackets that do not pair up, a
  bracketed host that is no IPv6 or IPvFuture literal).
\<close>

definition is_space :: "char \<Rightarrow> bool" where
  "is_space c = (c \<in> set [CHR 0x09, CHR 0x0A, CHR 0x0B, CHR 0x0C, CHR 0x0D,
                           CHR 0x1C, CHR 0x1D, CHR 0x1E, CHR 0x1F, CHR '' ''])"

definition is_alpha :: "char \<Rightarrow> bool" where
  "is_alpha c = (c \<in> set ''abcdefghijklmnopqrstuvwxyzABCDEFGHIJKLMNOPQRSTUVWXYZ'')"

definition is_word :: "char \<Rightarrow> bool" where
  "is_word c = (is_alpha c \<or> c \<in> set ''0123456789_'')"

definition lower_char :: "char \<Rightarrow> char" where
  "lower_char c =
     (case map_of (zip ''ABCDEFGHIJKLMNOPQRSTUVWXYZ'' ''abcdefghijklmnopqrstuvwxyz'') c of
        Some d \<Rightarrow> d
      | None \<Rightarrow> c)"

definition ascii_lower :: "string \<Rightarrow> string" where
  "ascii_lower s = map lower_char s"

definition ascii_strip :: "string \<Rightarrow> string" where
  "ascii_strip s = rev (dropWhile is_space (rev (dropWhile is_space s)))"

text \<open>\<^verbatim>\<open>re.sub(r"\s+", " ", s)\<close>: the flag says that the previous character was a space.\<close>

fun collapse_spaces :: "bool \<Rightarrow> string \<Rightarrow> string" where
  "collapse_spaces b [] = []"
| "collapse_spaces b (c # s) =
     (if is_space c then (if b then collapse_spaces True s else CHR '' '' # collapse_spaces True s)
      else c # collapse_spaces False s)"

text \<open>\<^verbatim>\<open>re.sub(r"\b(inc|inc\.|llc|corp|co\.|company|ltd)\b", "", s)\<close>. \<open>legal_match prev s\<close> is
  the length of the match that starts at the head of \<open>s\<close>, whose previous character is
  \<open>prev\<close>: the first alternative that is a prefix of \<open>s\<close> with a word boundary at its end.\<close>

definition word_opt :: "char option \<Rightarrow> bool" where
  "word_opt c = (case c of None \<Rightarrow> False | Some x \<Rightarrow> is_word x)"

definition nth_opt :: "string \<Rightarrow> nat \<Rightarrow> char option" where
  "nth_opt s n = (if n < length s then Some (s ! n) else None)"

definition legal_match :: "char option \<Rightarrow> string \<Rightarrow> nat option" where
  "legal_match prev s =
     (if word_opt prev \<noteq> word_opt (nth_opt s 0)
      then map_option length
             (find (\<lambda>a. take (length a) s = a \<and> is_word (last a) \<noteq> word_opt (nth_opt s (length a)))
                [''inc'', ''inc.'', ''llc'', ''corp'', ''co.'', ''company'', ''ltd''])
      else None)"

text \<open>\<open>skip\<close> counts the characters of the current match that are still to be dropped.\<close>

fun drop_legal :: "nat \<Rightarrow> char option \<Rightarrow> string \<Rightarrow> string" where
  "drop_legal skip prev [] = []"
| "drop_legal (Suc k) prev (c # s) = drop_legal k (Some c) s"
| "drop_legal 0 prev (c # s) =
     (case legal_match prev (c # s) of
        Some n \<Rightarrow> drop_legal (n - 1) (Some c) s
      | None \<Rightarrow> c # drop_legal 0 (Some c) s)"

record parse6 =
  scheme6 :: string
  netloc6 :: string
  path6 :: string
  params6 :: string
  query6 :: string
  fragment6 :: string

definition uses_relative :: "string list" where
  "uses_relative = [[], ''ftp'', ''http'', ''gopher'', ''nntp'', ''imap'', ''wais'', ''file'',
     ''https'', ''shttp'', ''mms'', ''prospero'', ''rtsp'', ''rtsps'', ''rtspu'', ''sftp'',
     ''svn'', ''svn+ssh'', ''ws'', ''wss'']"

definition uses_netloc :: "string list" where
  "uses_netloc = [[], ''ftp'', ''http'', ''gopher'', ''nntp'', ''telnet'', ''imap'', ''wais'',
     ''file'', ''mms'', ''https'', ''shttp'', ''snews'', ''prospero'', ''rtsp'', ''rtsps'',
     ''rtspu'', ''rsync'', ''svn'', ''svn+ssh'', ''sftp'', ''nfs'', ''git'', ''git+ssh'',
     ''ws'', ''wss'']"

definition uses_params :: "string list" where
  "uses_params = [[], ''ftp'', ''hdl'', ''prospero'', ''http'', ''imap'', ''https'', ''shttp'',
     ''rtsp'', ''rtsps'', ''rtspu'', ''sip'', ''sips'', ''mms'', ''sftp'', ''tel'']"

definition scheme_char :: "char \<Rightarrow> bool" where
  "scheme_char c = (is_alpha c \<or> c \<in> set ''0123456789+-.'')"

definition c0_or_space :: "char \<Rightarrow> bool" where
  "c0_or_space c = ((of_char c :: nat) \<le> 32)"

text \<open>\<^verbatim>\<open>s.split(c)\<close>, \<^verbatim>\<open>c.join(ws)\<close>, and \<^verbatim>\<open>s.split(c, 1)\<close> as the pair before and after the
  first \<open>c\<close>.\<close>

fun split_on :: "char \<Rightarrow> string \<Rightarrow> string list" where
  "split_on c [] = [[]]"
| "split_on c (x # xs) =
     (if x = c then [] # split_on c xs
      else (case split_on c xs of w # ws \<Rightarrow> (x # w) # ws | [] \<Rightarrow> [[x]]))"

fun join_with :: "char \<Rightarrow> string list \<Rightarrow> string" where
  "join_with c [] = []"
| "join_with c [w] = w"
| "join_with c (w # w' # ws) = w @ c # join_with c (w' # ws)"

definition cut_at :: "char \<Rightarrow> string \<Rightarrow> string \<times> string" where
  "cut_at c s = (takeWhile (\<lambda>x. x \<noteq> c) s, drop 1 (dropWhile (\<lambda>x. x \<noteq> c) s))"

text \<open>\<^verbatim>\<open>_splitparams\<close>: the first \<^verbatim>\<open>;\<close> of the last segment of the path.\<close>

definition splitparams :: "string \<Rightarrow> string \<times> string" where
  "splitparams url =
     (if CHR ''/'' \<in> set url
      then (let segs = split_on CHR ''/'' url;
                front = join_with CHR ''/'' (butlast segs) @ ''/'';
                lst = last segs
            in if CHR '';'' \<in> set lst
               then (front @ fst (cut_at CHR '';'' lst), snd (cut_at CHR '';'' lst))
               else (url, []))
      else cut_at CHR '';'' url)"

text \<open>The check of a bracketed host (\<^verbatim>\<open>_check_bracketed_host\<close>): an IPvFuture literal, or what
  \<^verbatim>\<open>ipaddress.ip_address\<close> accepts as an IPv6 address (an IPv4 address in brackets is
  refused).\<close>

definition hex_digit :: "char \<Rightarrow> bool" where
  "hex_digit c = (c \<in> set ''0123456789ABCDEFabcdef'')"

definition hextet_ok :: "string \<Rightarrow> bool" where
  "hextet_ok h = (h \<noteq> [] \<and> list_all hex_digit h \<and> length h \<le> 4)"

definition decimal :: "string \<Rightarrow> nat" where
  "decimal s = foldl (\<lambda>n c. 10 * n + (of_char c - 48)) 0 s"

definition octet_ok :: "string \<Rightarrow> bool" where
  "octet_ok t =
     (t \<noteq> [] \<and> list_all (\<lambda>c. c \<in> set ''0123456789'') t \<and> length t \<le> 3
      \<and> (t = ''0'' \<or> hd t \<noteq> CHR ''0'') \<and> decimal t \<le> 255)"

definition ipv4_ok :: "string \<Rightarrow> bool" where
  "ipv4_ok s = (s \<noteq> [] \<and> length (split_on CHR ''.'' s) = 4 \<and> list_all octet_ok (split_on CHR ''.'' s))"

text \<open>\<^verbatim>\<open>IPv6Address._ip_int_from_string\<close>, as far as it accepts or refuses: the parts between the
  colons, an IPv4 suffix standing for two parts, at most one \<^verbatim>\<open>::\<close>.\<close>

definition ipv6_ok :: "string \<Rightarrow> bool" where
  "ipv6_ok s =
     (let parts = split_on CHR '':'' s;
          v4 = (CHR ''.'' \<in> set (last parts));
          parts' = (if v4 then butlast parts @ [''0'', ''0''] else parts);
          n = length parts';
          skips = filter (\<lambda>i. parts' ! i = []) [1 ..< n - 1]
      in s \<noteq> [] \<and> 3 \<le> length parts \<and> (v4 \<longrightarrow> ipv4_ok (last parts)) \<and> n \<le> 9 \<and>
         (case skips of
            [] \<Rightarrow> n = 8 \<and> list_all hextet_ok parts'
          | [k] \<Rightarrow>
              (let parts_hi = (if hd parts' = [] then k - 1 else k);
                   parts_lo = (if last parts' = [] then n - k - 2 else n - k - 1)
               in (hd parts' = [] \<longrightarrow> parts_hi = 0) \<and> (last parts' = [] \<longrightarrow> parts_lo = 0)
                  \<and> parts_hi + parts_lo \<le> 7
                  \<and> list_all hextet_ok (take parts_hi parts')
                  \<and> list_all hextet_ok (drop (n - parts_lo) parts'))
          | _ \<Rightarrow> False))"

definition bracketed_host_ok :: "string \<Rightarrow> bool" where
  "bracketed_host_ok h =
     (if take 1 h = ''v''
      then (let digits = takeWhile hex_digit (drop 1 h);
                rest = dropWhile hex_digit (drop 1 h)
            in digits \<noteq> [] \<and> take 1 rest = ''.'' \<and> drop 1 rest \<noteq> [])
      else (if CHR ''%'' \<in> set h
            then snd (cut_at CHR ''%'' h) \<noteq> [] \<and> CHR ''%'' \<notin> set (snd (cut_at CHR ''%'' h))
                 \<and> ipv6_ok (fst (cut_at CHR ''%'' h))
            else ipv6_ok h))"

text \<open>\<^verbatim>\<open>urlparse(url, scheme)\<close>: \<^verbatim>\<open>urlsplit\<close>, then the parameters of the path.\<close>

definition ascii_urlparse :: "string \<Rightarrow> string \<Rightarrow> exn + parse6" where
  "ascii_urlparse dflt url =
     (let url = dropWhile c0_or_space url;
          url = filter (\<lambda>c. c \<notin> set [CHR 0x09, CHR 0x0D, CHR 0x0A]) url;
          pre = takeWhile (\<lambda>c. c \<noteq> CHR '':'') url;
          has_scheme = (CHR '':'' \<in> set url \<and> pre \<noteq> [] \<and> is_alpha (hd pre) \<and> list_all scheme_char pre);
          sch = (if has_scheme then ascii_lower pre else dflt);
          url = (if has_scheme then drop (length pre + 1) url else url);
          has_netloc = (take 2 url = ''//'');
          nl = (if has_netloc then takeWhile (\<lambda>c. c \<notin> set ''/?#'') (drop 2 url) else []);
          url = (if has_netloc then dropWhile (\<lambda>c. c \<notin> set ''/?#'') (drop 2 url) else url)
      in
      if (CHR ''['' \<in> set nl \<and> CHR '']'' \<notin> set nl) \<or> (CHR '']'' \<in> set nl \<and> CHR ''['' \<notin> set nl)
      then Inl ValueError
      else if CHR ''['' \<in> set nl \<and> CHR '']'' \<in> set nl
              \<and> \<not> bracketed_host_ok (fst (cut_at CHR '']'' (snd (cut_at CHR ''['' nl))))
      then Inl ValueError
      else
        (let frag = snd (cut_at CHR ''#'' url);
             url = fst (cut_at CHR ''#'' url);
             qry = snd (cut_at CHR ''?'' url);
             url = fst (cut_at CHR ''?'' url);
             has_params = (sch \<in> set uses_params \<and> CHR '';'' \<in> set url)
         in Inr \<lparr>scheme6 = sch, netloc6 = nl,
                  path6 = (if has_params then fst (splitparams url) else url),
                  params6 = (if has_params then snd (splitparams url) else []),
                  query6 = qry, fragment6 = frag\<rparr>))"

definition urlunparse :: "parse6 \<Rightarrow> string" where
  "urlunparse p =
     (let url = (if params6 p \<noteq> [] then path6 p @ '';'' @ params6 p else path6 p);
          url = (if netloc6 p \<noteq> [] \<or> (scheme6 p \<noteq> [] \<and> scheme6 p \<in> set uses_netloc) \<or> take 2 url = ''//''
                 then ''//'' @ netloc6 p @ (if url \<noteq> [] \<and> take 1 url \<noteq> ''/'' then ''/'' @ url else url)
                 else url);
          url = (if scheme6 p \<noteq> [] then scheme6 p @ '':'' @ url else url);
          url = (if query6 p \<noteq> [] then url @ ''?'' @ query6 p else url);
          url = (if fragment6 p \<noteq> [] then url @ ''#'' @ fragment6 p else url)
      in url)"

text \<open>The loop of \<^verbatim>\<open>urljoin\<close> that resolves the dot segments.\<close>

fun resolve_dots :: "string list \<Rightarrow> string list \<Rightarrow> string list" where
  "resolve_dots resolved [] = resolved"
| "resolve_dots resolved (seg # segs) =
     (if seg = ''..'' then resolve_dots (butlast resolved) segs
      else if seg = ''.'' then resolve_dots resolved segs
      else resolve_dots (resolved @ [seg]) segs)"

definition ascii_urljoin :: "string \<Rightarrow> string \<Rightarrow> exn + string" where
  "ascii_urljoin base url =
     (if base = [] then Inr url
      else if url = [] then Inr base
      else
        (case ascii_urlparse [] base of
           Inl e \<Rightarrow> Inl e
         | Inr b \<Rightarrow>
        (case ascii_urlparse (scheme6 b) url of
           Inl e \<Rightarrow> Inl e
         | Inr u \<Rightarrow>
             if scheme6 u \<noteq> scheme6 b \<or> scheme6 u \<notin> set uses_relative then Inr url
             else if scheme6 u \<in> set uses_netloc \<and> netloc6 u \<noteq> [] then Inr (urlunparse u)
             else
               (let nl = (if scheme6 u \<in> set uses_netloc then netloc6 b else netloc6 u) in
                if path6 u = [] \<and> params6 u = []
                then Inr (urlunparse (u\<lparr>netloc6 := nl, path6 := path6 b, params6 := params6 b,
                            query6 := (if query6 u = [] then query6 b else query6 u)\<rparr>))
                else
                  (let base_parts = split_on CHR ''/'' (path6 b);
                       base_parts = (if last base_parts \<noteq> [] then butlast base_parts else base_parts);
                       joined = base_parts @ split_on CHR ''/'' (path6 u);
                       segments =
                         (if take 1 (path6 u) = ''/'' then split_on CHR ''/'' (path6 u)
                          else if length joined < 2 then joined
                          else hd joined # filter (\<lambda>w. w \<noteq> []) (butlast (tl joined)) @ [last joined]);
                       resolved = resolve_dots [] segments;
                       resolved = (if last segments \<in> set [''.'', ''..''] then resolved @ [[]] else resolved);
                       p = join_with CHR ''/'' resolved
                   in Inr (urlunparse (u\<lparr>netloc6 := nl, path6 := (if p \<noteq> [] then p else ''/'')\<rparr>)))))))"

subsection \<open>What the claims speak of\<close>

text \<open>The requests that probe a URL.\<close>

fun is_probe :: "event \<Rightarrow> bool" where
  "is_probe (HEAD u) = True"
| "is_probe (GET u) = True"
| "is_probe ev = False"

fun is_search :: "event \<Rightarrow> bool" where
  "is_search (SEARCH q) = True"
| "is_search ev = False"

text \<open>Reachable, as the glossary has it: the prober says yes.\<close>

definition reachable :: "world \<Rightarrow> string \<Rightarrow> bool" where
  "reachable W u = (fst (safe_head W (JStr u)) = Inr True)"

text \<open>The \<^verbatim>\<open>href\<close>s of the result anchors of a search, when the page comes back with status 200
  and parses; the first of them that names http or https.\<close>

definition result_links :: "pylib \<Rightarrow> world \<Rightarrow> string \<Rightarrow> string option list" where
  "result_links L W query =
     (case ddg_get W query of
        Inl e \<Rightarrow> []
      | Inr r \<Rightarrow>
          if status_code r = 200
          then (case soup_results L (resp_text r) of Inl e \<Rightarrow> [] | Inr hrefs \<Rightarrow> hrefs)
          else [])"

definition first_link :: "pylib \<Rightarrow> world \<Rightarrow> string \<Rightarrow> string option" where
  "first_link L W query = first_result (result_links L W query)"

text \<open>"Accept the first reachable result", read as the words stand: of the result links of
  the search, the first one that is reachable; without one, the field stays as it was.\<close>

fun external_links :: "string option list \<Rightarrow> string list" where
  "external_links [] = []"
| "external_links (None # hs) = external_links hs"
| "external_links (Some href # hs) =
     (if href \<noteq> [] \<and> (contains ''http://'' href \<or> contains ''https://'' href)
      then href # external_links hs else external_links hs)"

definition spec_first_reachable :: "pylib \<Rightarrow> world \<Rightarrow> string \<Rightarrow> json \<Rightarrow> json" where
  "spec_first_reachable L W query old =
     (case find (reachable W) (external_links (result_links L W query)) of
        Some h \<Rightarrow> JStr h
      | None \<Rightarrow> old)"

text \<open>What the code accepts: the first result link, when it is reachable.\<close>

definition accepted :: "pylib \<Rightarrow> world \<Rightarrow> string \<Rightarrow> json \<Rightarrow> json" where
  "accepted L W query old =
     (case first_link L W query of
        Some h \<Rightarrow> if h \<noteq> [] \<and> reachable W h then JStr h else old
      | None \<Rightarrow> old)"

text \<open>The object that an attempt of the resolver parses out of its answer, if any.
  \<open>parse_text\<close> is the parsing of attempts 2 and 3: the text as JSON, else the match of the
  regular expression as JSON, else (no match) the empty object.\<close>

fun as_object :: "json \<Rightarrow> (string \<times> json) list option" where
  "as_object (JObj d) = Some d"
| "as_object v = None"

definition parse_text :: "pylib \<Rightarrow> string \<Rightarrow> (string \<times> json) list option" where
  "parse_text L s =
     (case json_loads L s of
        Inr v \<Rightarrow> as_object v
      | Inl e \<Rightarrow>
          (case re_search_triple L s of
             None \<Rightarrow> Some []
           | Some m \<Rightarrow> (case json_loads L m of Inr v \<Rightarrow> as_object v | Inl e' \<Rightarrow> None)))"

definition parsed1 :: "pylib \<Rightarrow> world \<Rightarrow> string \<Rightarrow> (string \<times> json) list option" where
  "parsed1 L W user_text =
     (case chat_completions W True user_text of
        Inr (Some s) \<Rightarrow> (case json_loads L s of Inr v \<Rightarrow> as_object v | Inl e \<Rightarrow> None)
      | _ \<Rightarrow> None)"

definition parsed2 :: "pylib \<Rightarrow> world \<Rightarrow> string \<Rightarrow> (string \<times> json) list option" where
  "parsed2 L W user_text =
     (case chat_completions W False user_text of
        Inr (Some s) \<Rightarrow> parse_text L s
      | _ \<Rightarrow> None)"

definition parsed3 :: "pylib \<Rightarrow> world \<Rightarrow> string \<Rightarrow> (string \<times> json) list option" where
  "parsed3 L W user_text =
     (case responses_create W user_text of
        Inr resp \<Rightarrow> (case text_candidates resp of [] \<Rightarrow> None | s # ss \<Rightarrow> parse_text L s)
      | Inl e \<Rightarrow> None)"

text \<open>The resolver read as the words stand: the first attempt whose object has a usable
  field gives the triple; without one, the empty triple.\<close>

definition usable :: "(string \<times> json) list \<Rightarrow> bool" where
  "usable d = list_ex (\<lambda>k. truthy (dict_get d k)) [''company'', ''official_website'', ''careers_url'']"

definition spec_first_usable :: "pylib \<Rightarrow> world \<Rightarrow> string \<Rightarrow> (string \<times> json) list" where
  "spec_first_usable L W user_text =
     (case find (\<lambda>r. case r of Some d \<Rightarrow> usable d | None \<Rightarrow> False)
             [parsed1 L W user_text, parsed2 L W user_text, parsed3 L W user_text] of
        Some (Some d) \<Rightarrow> triple_of d
      | _ \<Rightarrow> [])"

text \<open>\<^verbatim>\<open>urljoin\<close> returns on the base and each of the fixed suffixes.\<close>

definition joins :: "pylib \<Rightarrow> string \<Rightarrow> bool" where
  "joins L base =
     list_all (\<lambda>p. case urljoin L base p of Inl e \<Rightarrow> False | Inr c \<Rightarrow> True) COMMON_CAREER_PATHS"

subsection \<open>Scenarios\<close>

text \<open>The library of the scenarios: the string and URL functions on ASCII text, and the
  parsers on the documents of the scenarios (no other text parses as JSON, matches the
  regular expression, or has anchors).\<close>

definition acme_json :: string where
  \<open>acme_json = ''{"company": "Acme", "official_website": "https://acme.example", "careers_url": "https://acme.example/work"}''\<close>

definition bolt_json :: string where
  \<open>bolt_json = ''{"company": "Bolt", "official_website": "http://user[@bolt.example", "careers_url": ""}''\<close>

definition globex_json :: string where
  \<open>globex_json = ''{"company": "Globex", "official_website": "https://globex.example", "careers_url": "https://globex.example/hiring"}''\<close>

definition globex_text :: string where
  "globex_text = ''Here is the JSON: '' @ globex_json"

definition hooli_official_page :: string where
  "hooli_official_page =
     ''<a class=result__a href=https://a.example/>A</a><a class=result__a href=https://b.example/>B</a>''"

definition hooli_careers_page :: string where
  "hooli_careers_page =
     ''<a class=result__a>none</a><a class=result__a href=/y>Y</a><a class=result__a href=https://hooli.example/careers>H</a>''"

definition demo_loads :: "string \<Rightarrow> exn + json" where
  "demo_loads s =
     (if s = ''{}'' then Inr (JObj [])
      else if s = acme_json then
        Inr (JObj [(''company'', JStr ''Acme''), (''official_website'', JStr ''https://acme.example''),
                   (''careers_url'', JStr ''https://acme.example/work'')])
      else if s = bolt_json then
        Inr (JObj [(''company'', JStr ''Bolt''), (''official_website'', JStr ''http://user[@bolt.example''),
                   (''careers_url'', JStr [])])
      else if s = globex_json then
        Inr (JObj [(''company'', JStr ''Globex''), (''official_website'', JStr ''https://globex.example''),
                   (''careers_url'', JStr ''https://globex.example/hiring'')])
      else Inl JSONDecodeError)"

definition demo_search :: "string \<Rightarrow> string option" where
  "demo_search s = (if s = globex_text then Some globex_json else None)"

definition demo_results :: "string \<Rightarrow> exn + string option list" where
  "demo_results page =
     (if page = hooli_official_page then Inr [Some ''https://a.example/'', Some ''https://b.example/'']
      else if page = hooli_careers_page then Inr [None, Some ''/y'', Some ''https://hooli.example/careers'']
      else Inr [])"

definition demo_lib :: pylib where
  "demo_lib =
     \<lparr>urlparse = (\<lambda>u. case ascii_urlparse [] u of
                        Inl e \<Rightarrow> Inl e
                      | Inr p \<Rightarrow> Inr \<lparr>scheme = scheme6 p, netloc = netloc6 p, path = path6 p\<rparr>),
      urljoin = ascii_urljoin,
      str_strip = ascii_strip,
      str_lower = ascii_lower,
      re_sub_legal = drop_legal 0 None,
      re_sub_spaces = collapse_spaces False,
      re_search_triple = demo_search,
      json_loads = demo_loads,
      soup_anchors = (\<lambda>page. Inr []),
      soup_results = demo_results\<rparr>"

text \<open>The world of the scenarios. A URL that is not listed answers 404 to HEAD and to GET;
  the host of \<^verbatim>\<open>https://nowhere.invalid\<close> does not resolve. The model answers "Acme" with an
  empty object in JSON mode, "Bolt" with a homepage whose user part holds a bracket, and
  "Globex" through an SDK without JSON mode, with prose around the object.\<close>

definition demo_world :: world where
  "demo_world =
     \<lparr>openai_api_key = ''sk-demo'',
      http_head = (\<lambda>u.
        if u = ''https://nowhere.invalid'' then Inl TransportError
        else if u \<in> set [''https://acme.example/jobs'', ''http://user[@bolt.example'',
                          ''https://globex.example'', ''https://b.example/'',
                          ''https://hooli.example/careers'']
        then Inr 200
        else if u = ''https://initech.example/'' then Inr 405
        else Inr 404),
      http_get = (\<lambda>u.
        if u = ''https://nowhere.invalid'' then Inl TransportError
        else if u \<in> set [''https://initech.example/'', ''https://globex.example/'']
        then Inr \<lparr>status_code = 200, resp_text = ''<html></html>''\<rparr>
        else Inr \<lparr>status_code = 404, resp_text = []\<rparr>),
      ddg_get = (\<lambda>q.
        if q = ''hooli official site'' then Inr \<lparr>status_code = 200, resp_text = hooli_official_page\<rparr>
        else if q = ''hooli careers site'' then Inr \<lparr>status_code = 200, resp_text = hooli_careers_page\<rparr>
        else Inl TransportError),
      chat_completions = (\<lambda>json_mode user_text.
        if user_text = ''Acme'' then Inr (Some (if json_mode then ''{}'' else acme_json))
        else if user_text = ''Bolt'' \<and> json_mode then Inr (Some bolt_json)
        else if user_text = ''Globex'' then (if json_mode then Inl TypeError else Inr (Some globex_text))
        else Inl APIError),
      responses_create = (\<lambda>user_text. Inl APIError)\<rparr>"

text \<open>The base with its trailing slash, and the URLs of the HEAD requests of a log.\<close>

definition slash :: "string \<Rightarrow> string" where
  "slash s = (if \<not> endswith s ''/'' then s @ ''/'' else s)"

fun heads :: "event list \<Rightarrow> string list" where
  "heads [] = []"
| "heads (HEAD u # es) = u # heads es"
| "heads (e # es) = heads es"

text \<open>The probe that follows a search: of its first result link, if there is one.\<close>

definition search_probes :: "pylib \<Rightarrow> world \<Rightarrow> string \<Rightarrow> event list" where
  "search_probes L W query =
     (case first_link L W query of
        Some h \<Rightarrow> if h \<noteq> [] then snd (safe_head W (JStr h)) else []
      | None \<Rightarrow> [])"

text \<open>The same world without an API key.\<close>

definition demo_nokey :: world where
  "demo_nokey = demo_world\<lparr>openai_api_key := []\<rparr>"

subsection \<open>The claims read as their words stand\<close>

text \<open>The host of a network location, as urllib's \<^verbatim>\<open>hostname\<close> takes it (before lower-casing):
  what follows the last \<^verbatim>\<open>@\<close>, up to the port; of a bracketed host, what is between the
  brackets.\<close>

definition host_of :: "string \<Rightarrow> string" where
  "host_of nl =
     (let hostinfo = rev (takeWhile (\<lambda>c. c \<noteq> CHR ''@'') (rev nl))
      in if CHR ''['' \<in> set hostinfo
         then fst (cut_at CHR '']'' (snd (cut_at CHR ''['' hostinfo)))
         else fst (cut_at CHR '':'' hostinfo))"

text \<open>"Valid iff the string parses to an absolute URL with scheme http or https and a
  non-empty host."\<close>

definition spec_valid_url :: "pylib \<Rightarrow> string \<Rightarrow> bool" where
  "spec_valid_url L url =
     (case urlparse L url of
        Inl e \<Rightarrow> False
      | Inr p \<Rightarrow> (scheme p = ''http'' \<or> scheme p = ''https'') \<and> host_of (netloc p) \<noteq> [])"

text \<open>"Official is the input's origin (scheme plus host)."\<close>

definition spec_official :: "pylib \<Rightarrow> string \<Rightarrow> json option" where
  "spec_official L url =
     (case urlparse L url of
        Inl e \<Rightarrow> None
      | Inr p \<Rightarrow> Some (JStr (scheme p @ ''://'' @ host_of (netloc p))))"

text \<open>The official site of a resolution, when the orchestrator returns one.\<close>

definition official_of :: "resolution io \<Rightarrow> json option" where
  "official_of r =
     (case fst r of
        Inl e \<Rightarrow> None
      | Inr (official, careers, debug) \<Rightarrow> Some official)"

section \<open>Properties\<close>

subsection \<open>Returning, raising, handling\<close>

lemma io_bind_ret [simp]: "io_bind (io_ret x) f = f x"
  by (simp add: io_bind_def io_ret_def split: prod.splits)

lemma io_bind_raise [simp]: "io_bind (io_raise e) f = io_raise e"
  by (simp add: io_bind_def io_raise_def)

lemma io_bind_Inl [simp]: "io_bind (Inl e, l) f = (Inl e, l)"
  by (simp add: io_bind_def)

lemma io_bind_Inr [simp]: "io_bind (Inr x, l) f = (fst (f x), l @ snd (f x))"
  by (simp add: io_bind_def split: prod.splits)

lemma io_try_Inl [simp]: "io_try (Inl e, l) h = (fst (h e), l @ snd (h e))"
  by (simp add: io_try_def split: prod.splits)

lemma io_try_Inr [simp]: "io_try (Inr x, l) h = (Inr x, l)"
  by (simp add: io_try_def)

lemma io_try_ret [simp]: "io_try (io_ret x) h = io_ret x"
  by (simp add: io_try_def io_ret_def)

lemma io_try_raise [simp]: "io_try (io_raise e) h = h e"
  by (simp add: io_try_def io_raise_def split: prod.splits)

lemma fst_io_ret [simp]: "fst (io_ret x) = Inr x"
  by (simp add: io_ret_def)

lemma snd_io_ret [simp]: "snd (io_ret x) = []"
  by (simp add: io_ret_def)

lemma fst_io_raise [simp]: "fst (io_raise e) = Inl e"
  by (simp add: io_raise_def)

lemma snd_io_raise [simp]: "snd (io_raise e) = []"
  by (simp add: io_raise_def)

subsection \<open>The library of the scenarios at the inputs of the scenarios\<close>

lemma demo_urlparse_openai:
  "urlparse demo_lib ''https://openai.com/careers'' =
     Inr \<lparr>scheme = ''https'', netloc = ''openai.com'', path = ''/careers''\<rparr>"
  by code_simp

lemma demo_urlparse_nvidia:
  "urlparse demo_lib ''Nvidia'' = Inr \<lparr>scheme = [], netloc = [], path = ''Nvidia''\<rparr>"
  by code_simp

lemma demo_urlparse_bolt: "urlparse demo_lib ''http://user[@bolt.example'' = Inl ValueError"
  by code_simp

subsection \<open>URL Validator\<close>

lemma host_of_nonempty: "host_of nl \<noteq> [] \<Longrightarrow> nl \<noteq> []"
  by (auto simp: host_of_def cut_at_def)

lemma demo_port_valid: "is_valid_url demo_lib ''http://:80'' = (Inr True, [])"
  by code_simp

lemma demo_port_parse:
  "urlparse demo_lib ''http://:80'' = Inr \<lparr>scheme = ''http'', netloc = '':80'', path = []\<rparr>"
  by code_simp

lemma demo_port_spec: "\<not> spec_valid_url demo_lib ''http://:80''"
  by code_simp

text \<open>
  Claim C7, as amended. For every string, \<open>is_valid_url\<close> returns true iff the string
  parses to a URL whose scheme is http or https and whose network location (\<^verbatim>\<open>netloc\<close>: the
  authority between \<^verbatim>\<open>//\<close> and the path, with user info and port) is not empty; it returns
  false for every other string, also when \<^verbatim>\<open>urlparse\<close> raises, and it never raises itself
  (the result is always an \<open>Inr\<close>) and sends no request. So it returns true for every
  string that parses to an http or https URL with a non-empty host; it returns true as
  well when the network location holds only a port or user info and the host is empty.
\<close>

theorem is_valid_url_netloc:
  "is_valid_url L url =
     (Inr (case urlparse L url of
             Inl e \<Rightarrow> False
           | Inr p \<Rightarrow> (scheme p = ''http'' \<or> scheme p = ''https'') \<and> netloc p \<noteq> []), [])
   \<and> (spec_valid_url L url \<longrightarrow> is_valid_url L url = (Inr True, []))"
proof (cases "urlparse L url")
  case (Inl e)
  then show ?thesis
    by (simp add: is_valid_url_def spec_valid_url_def io_lib_def io_ret_def)
next
  case (Inr p)
  then show ?thesis
    using host_of_nonempty [of "netloc p"]
    by (auto simp: is_valid_url_def spec_valid_url_def io_lib_def io_ret_def)
qed

theorem is_valid_url_netloc_witness:
  "is_valid_url demo_lib ''https://openai.com/careers'' = (Inr True, [])
   \<and> is_valid_url demo_lib ''Nvidia'' = (Inr False, [])
   \<and> is_valid_url demo_lib ''http://user[@bolt.example'' = (Inr False, [])
   \<and> is_valid_url demo_lib ''http://:80'' = (Inr True, [])"
  using is_valid_url_netloc [of demo_lib "''https://openai.com/careers''"]
        is_valid_url_netloc [of demo_lib "''Nvidia''"]
        is_valid_url_netloc [of demo_lib "''http://user[@bolt.example''"]
        is_valid_url_netloc [of demo_lib "''http://:80''"]
  by (simp add: demo_urlparse_openai demo_urlparse_nvidia demo_urlparse_bolt demo_port_parse
      demo_port_spec)

text \<open>
  The claim as it was stated asks for a non-empty host. The network location of
  \<^verbatim>\<open>http://:80\<close> is \<^verbatim>\<open>:80\<close>, its host is empty, and the code says that the URL is valid.
\<close>

theorem is_valid_url_host_counterexample:
  "is_valid_url demo_lib ''http://:80'' \<noteq> (Inr (spec_valid_url demo_lib ''http://:80''), [])"
  by (simp add: demo_port_valid demo_port_spec)

subsection \<open>Reachability Prober\<close>

lemma safe_head_eq:
  "safe_head W (JStr u) =
     (case http_head W u of
        Inl e \<Rightarrow> (Inr False, [HEAD u])
      | Inr r \<Rightarrow>
          if r \<ge> 400 \<or> r = 405
          then (case http_get W u of
                  Inl e \<Rightarrow> (Inr False, [HEAD u, GET u])
                | Inr g \<Rightarrow> (Inr (200 \<le> status_code g \<and> status_code g < 400), [HEAD u, GET u]))
          else (Inr (200 \<le> r \<and> r < 400), [HEAD u]))"
  by (cases "http_head W u"; cases "http_get W u")
     (simp_all add: safe_head_def httpx_head_def httpx_get_def io_call_def io_ret_def)

text \<open>
  Claim C5. On a URL \<open>u\<close>, \<open>safe_head\<close> sends HEAD first and sends GET after it exactly when
  the status of the HEAD response is at least 400 or is 405. It returns true iff the last
  response it got has a status in [200, 400). When HEAD or GET fails in transport (the host
  does not resolve, TLS, timeout) it returns false: the result is never an exception.
\<close>

theorem safe_head_spec:
  "safe_head W (JStr u) =
     (case http_head W u of
        Inl e \<Rightarrow> (Inr False, [HEAD u])
      | Inr r \<Rightarrow>
          if r \<ge> 400 \<or> r = 405
          then (case http_get W u of
                  Inl e \<Rightarrow> (Inr False, [HEAD u, GET u])
                | Inr g \<Rightarrow> (Inr (200 \<le> status_code g \<and> status_code g < 400), [HEAD u, GET u]))
          else (Inr (200 \<le> r \<and> r < 400), [HEAD u]))"
  by (rule safe_head_eq)

theorem safe_head_spec_witness:
  "safe_head demo_world (JStr ''https://initech.example/'')
     = (Inr True, [HEAD ''https://initech.example/'', GET ''https://initech.example/''])
   \<and> safe_head demo_world (JStr ''https://nowhere.invalid'')
     = (Inr False, [HEAD ''https://nowhere.invalid''])"
  using safe_head_spec [of demo_world "''https://initech.example/''"]
        safe_head_spec [of demo_world "''https://nowhere.invalid''"]
  by (simp add: demo_world_def)

subsection \<open>The prober, the search and the resolver never raise\<close>

lemma safe_head_nonstr:
  "(\<And>s. u \<noteq> JStr s) \<Longrightarrow> safe_head W u = (Inr False, [])"
  by (cases u) (auto simp: safe_head_def httpx_head_def io_ret_def)

lemma safe_head_returns: "\<exists>b. fst (safe_head W u) = Inr b"
proof (cases u)
  case (JStr s)
  then show ?thesis
    by (auto simp: safe_head_eq split: sum.splits)
qed (auto simp: safe_head_def httpx_head_def)

lemma safe_head_probes: "list_all is_probe (snd (safe_head W u))"
proof (cases u)
  case (JStr s)
  then show ?thesis
    by (simp add: safe_head_eq split: sum.splits)
qed (simp_all add: safe_head_def httpx_head_def)

lemma safe_head_cases:
  obtains b l where "safe_head W u = (Inr b, l)" "list_all is_probe l"
  using safe_head_returns [of W u] safe_head_probes [of W u]
  by (cases "safe_head W u") auto

lemma ddg_first_result_eq:
  "ddg_first_result L W q = (Inr (first_link L W q), [SEARCH q])"
  by (simp add: ddg_first_result_def first_link_def result_links_def io_call_def io_lib_def io_ret_def
      split: sum.splits)

lemma block_texts_nonempty: "\<forall>t \<in> set (block_texts bs). t \<noteq> []"
  by (induction bs rule: block_texts.induct) (auto split: option.splits if_splits)

lemma text_candidates_nonempty: "\<forall>t \<in> set (text_candidates r). t \<noteq> []"
  using block_texts_nonempty by (auto simp: text_candidates_def split: option.splits)

lemma filter_text_candidates: "filter (\<lambda>t. t \<noteq> []) (text_candidates r) = text_candidates r"
  using text_candidates_nonempty by (simp add: filter_id_conv)

lemma loads_or_salvage:
  "io_try (loads_content L (Some s)) (\<lambda>e. salvage L (Some s)) =
     (case json_loads L s of
        Inr v \<Rightarrow> (Inr v, [])
      | Inl e \<Rightarrow>
          (case re_search_triple L s of
             Some m \<Rightarrow> (json_loads L m, [])
           | None \<Rightarrow> (Inr (JObj []), [])))"
  by (simp add: loads_content_def salvage_def io_lib_def io_ret_def split: sum.splits option.splits)

lemma attempt1_eq:
  "attempt1 L W t = (Inr (map_option triple_of (parsed1 L W t)), [CHAT_JSON t])"
  by (simp add: attempt1_def parsed1_def loads_content_def io_call_def io_lib_def io_ret_def io_raise_def
      split: sum.splits option.splits json.splits)

lemma attempt2_eq:
  "attempt2 L W t = (Inr (map_option triple_of (parsed2 L W t)), [CHAT_PLAIN t])"
proof (cases "chat_completions W False t")
  case (Inl e)
  then show ?thesis by (simp add: attempt2_def parsed2_def io_call_def io_ret_def)
next
  case (Inr c)
  show ?thesis
  proof (cases c)
    case None
    with Inr show ?thesis
      by (simp add: attempt2_def parsed2_def io_call_def io_ret_def loads_content_def salvage_def io_raise_def)
  next
    case (Some s)
    with Inr show ?thesis
      by (simp add: attempt2_def parsed2_def parse_text_def io_call_def loads_or_salvage io_ret_def
          split: sum.splits option.splits json.splits)
  qed
qed

lemma attempt3_eq:
  "attempt3 L W t = (Inr (map_option triple_of (parsed3 L W t)), [RESPONSES t])"
proof (cases "responses_create W t")
  case (Inl e)
  then show ?thesis by (simp add: attempt3_def parsed3_def io_call_def io_ret_def)
next
  case (Inr r)
  show ?thesis
  proof (cases "text_candidates r")
    case Nil
    with Inr show ?thesis
      by (simp add: attempt3_def parsed3_def io_call_def io_ret_def filter_text_candidates)
  next
    case (Cons s ss)
    then have "s \<noteq> []" using text_candidates_nonempty [of r] by simp
    with Inr Cons show ?thesis
      by (simp add: attempt3_def parsed3_def parse_text_def io_call_def loads_or_salvage io_ret_def
          filter_text_candidates split: sum.splits option.splits json.splits)
  qed
qed

lemma openai_guess_eq:
  "openai_guess_company_and_urls L W t =
     (if openai_api_key W = [] then (Inr [], [])
      else case parsed1 L W t of
        Some d \<Rightarrow> (Inr (triple_of d), [CHAT_JSON t])
      | None \<Rightarrow>
          (case parsed2 L W t of
             Some d \<Rightarrow> (Inr (triple_of d), [CHAT_JSON t, CHAT_PLAIN t])
           | None \<Rightarrow>
               (case parsed3 L W t of
                  Some d \<Rightarrow> (Inr (triple_of d), [CHAT_JSON t, CHAT_PLAIN t, RESPONSES t])
                | None \<Rightarrow> (Inr [], [CHAT_JSON t, CHAT_PLAIN t, RESPONSES t]))))"
  by (simp add: openai_guess_company_and_urls_def client_def attempt1_eq attempt2_eq attempt3_eq io_ret_def
      split: option.splits)

subsection \<open>Company Resolver\<close>

lemma demo_key: "openai_api_key demo_world \<noteq> []"
  by (simp add: demo_world_def)

lemma demo_globex1: "parsed1 demo_lib demo_world ''Globex'' = None"
  by code_simp

lemma demo_globex2:
  "parsed2 demo_lib demo_world ''Globex'' =
     Some [(''company'', JStr ''Globex''), (''official_website'', JStr ''https://globex.example''),
           (''careers_url'', JStr ''https://globex.example/hiring'')]"
  by code_simp

lemma demo_acme_code:
  "openai_guess_company_and_urls demo_lib demo_world ''Acme'' =
     (Inr [(''company'', JNull), (''official_website'', JNull), (''careers_url'', JNull)],
      [CHAT_JSON ''Acme''])"
  by code_simp

lemma demo_acme_spec:
  "spec_first_usable demo_lib demo_world ''Acme'' =
     [(''company'', JStr ''Acme''), (''official_website'', JStr ''https://acme.example''),
      (''careers_url'', JStr ''https://acme.example/work'')]"
  by code_simp

text \<open>
  Claim C1, as amended. The resolver returns at once with the empty dict when no client is
  configured. Otherwise it tries its three request shapes in order, and the first attempt
  whose answer parses to a JSON object gives the returned triple (each field the object's
  value, or None), whether or not any of the three fields is usable; in shapes 2 and 3 a
  text that is not JSON and has no match of the regular expression counts as the empty
  object. An attempt that raises (the request fails, the text of shape 1 is not JSON or not
  an object, the match of the regular expression is not JSON) is caught and the next
  attempt is tried; an answer of shape 2 or 3 that is JSON but not an object is passed over
  in the same way. When no attempt gives an object the result is the empty dict. The
  resolver never raises.
\<close>

theorem openai_guess_first_object:
  "openai_guess_company_and_urls L W t =
     (if openai_api_key W = [] then (Inr [], [])
      else case parsed1 L W t of
        Some d \<Rightarrow> (Inr (triple_of d), [CHAT_JSON t])
      | None \<Rightarrow>
          (case parsed2 L W t of
             Some d \<Rightarrow> (Inr (triple_of d), [CHAT_JSON t, CHAT_PLAIN t])
           | None \<Rightarrow>
               (case parsed3 L W t of
                  Some d \<Rightarrow> (Inr (triple_of d), [CHAT_JSON t, CHAT_PLAIN t, RESPONSES t])
                | None \<Rightarrow> (Inr [], [CHAT_JSON t, CHAT_PLAIN t, RESPONSES t]))))"
  by (rule openai_guess_eq)

theorem openai_guess_first_object_witness:
  "openai_guess_company_and_urls demo_lib demo_world ''Globex'' =
     (Inr [(''company'', JStr ''Globex''), (''official_website'', JStr ''https://globex.example''),
           (''careers_url'', JStr ''https://globex.example/hiring'')],
      [CHAT_JSON ''Globex'', CHAT_PLAIN ''Globex''])"
  using openai_guess_first_object [of demo_lib demo_world "''Globex''"]
  by (simp add: demo_key demo_globex1 demo_globex2 triple_of_def dict_get_def)

text \<open>
  The claim as it was stated asks for an object with at least one usable field. In the
  scenario the model answers "Acme" with \<^verbatim>\<open>{}\<close> in JSON mode and with a full object
  without it: the code returns the three None of the first answer and never sends the
  second request.
\<close>

theorem openai_guess_first_usable_counterexample:
  "fst (openai_guess_company_and_urls demo_lib demo_world ''Acme'')
     \<noteq> Inr (spec_first_usable demo_lib demo_world ''Acme'')"
  by (simp add: demo_acme_code demo_acme_spec)

subsection \<open>Careers-Path Discoverer\<close>

lemma snd_io_bind:
  "snd (io_bind m f) = (case fst m of Inl e \<Rightarrow> snd m | Inr x \<Rightarrow> snd m @ snd (f x))"
  by (cases m; cases "fst m") simp_all

lemma fst_io_bind:
  "fst (io_bind m f) = (case fst m of Inl e \<Rightarrow> Inl e | Inr x \<Rightarrow> fst (f x))"
  by (cases m; cases "fst m") simp_all

lemma all_io_bind:
  "list_all P (snd m) \<Longrightarrow> (\<And>x. list_all P (snd (f x))) \<Longrightarrow> list_all P (snd (io_bind m f))"
  by (simp add: snd_io_bind split: sum.splits)

lemma all_io_try:
  "list_all P (snd m) \<Longrightarrow> (\<And>e. list_all P (snd (h e))) \<Longrightarrow> list_all P (snd (io_try m h))"
  by (cases m; cases "fst m") simp_all

lemma snd_io_lib [simp]: "snd (io_lib r) = []"
  by (simp add: io_lib_def)

lemma fst_io_lib [simp]: "fst (io_lib r) = r"
  by (simp add: io_lib_def)

lemma heads_append [simp]: "heads (xs @ ys) = heads xs @ heads ys"
  by (induction xs rule: heads.induct) simp_all

lemma heads_safe_head: "heads (snd (safe_head W (JStr u))) = [u]"
  by (simp add: safe_head_eq split: sum.splits)

lemma try_paths_probes: "list_all is_probe (snd (try_paths L W base ps))"
proof (induction ps)
  case Nil
  show ?case by simp
next
  case (Cons p ps)
  show ?case
    by (auto intro!: all_io_bind simp: safe_head_probes Cons)
qed

lemma scan_anchors_probes: "list_all is_probe (snd (scan_anchors L W base as))"
proof (induction as)
  case Nil
  show ?case by simp
next
  case (Cons a as)
  obtain href tx where a: "a = (href, tx)" by (cases a)
  show ?case
    unfolding a by (auto intro!: all_io_bind simp: safe_head_probes Cons Let_def)
qed

lemma scan_homepage_probes: "list_all is_probe (snd (scan_homepage L W base))"
  unfolding scan_homepage_def
  by (auto intro!: all_io_try all_io_bind simp: scan_anchors_probes httpx_get_def io_call_def)

lemma io_try_returns: "\<exists>r. fst (io_try m (\<lambda>e. io_ret x)) = Inr r"
  by (cases m; cases "fst m") simp_all

lemma scan_homepage_returns: "\<exists>r. fst (scan_homepage L W base) = Inr r"
  unfolding scan_homepage_def by (rule io_try_returns)

lemma discover_probes: "list_all is_probe (snd (discover_careers_from_domain L W d))"
  by (cases d)
     (auto intro!: all_io_bind simp: discover_careers_from_domain_def try_paths_probes
        scan_homepage_probes Let_def split: option.splits)

lemma try_paths_returns:
  "list_all (\<lambda>p. case urljoin L base p of Inl e \<Rightarrow> False | Inr c \<Rightarrow> True) ps
   \<Longrightarrow> \<exists>r. fst (try_paths L W base ps) = Inr r"
proof (induction ps)
  case Nil
  show ?case by simp
next
  case (Cons p ps)
  then obtain c where c: "urljoin L base p = Inr c"
    by (cases "urljoin L base p") simp_all
  obtain b l where b: "safe_head W (JStr c) = (Inr b, l)"
    by (rule safe_head_cases)
  from Cons have "\<exists>r. fst (try_paths L W base ps) = Inr r" by simp
  then show ?case
    by (simp add: c b io_lib_def)
qed

lemma discover_returns:
  assumes "joins L (slash s)"
  shows "\<exists>r. fst (discover_careers_from_domain L W (JStr s)) = Inr r"
proof -
  obtain r where r: "fst (try_paths L W (slash s) COMMON_CAREER_PATHS) = Inr r"
    using try_paths_returns [of L "slash s" COMMON_CAREER_PATHS W] assms
    by (auto simp: joins_def)
  obtain r' where r': "fst (scan_homepage L W (slash s)) = Inr r'"
    using scan_homepage_returns by blast
  show ?thesis
    using r r'
    by (simp add: discover_careers_from_domain_def slash_def [symmetric] Let_def fst_io_bind
        split: option.splits)
qed

lemma try_paths_first:
  assumes "\<forall>q \<in> set (pre @ [p]). urljoin L base q = Inr (c q)"
    and "\<forall>q \<in> set pre. \<not> reachable W (c q)"
    and "reachable W (c p)"
  shows "fst (try_paths L W base (pre @ p # post)) = Inr (Some (c p))
       \<and> heads (snd (try_paths L W base (pre @ p # post))) = map c (pre @ [p])"
  using assms
proof (induction pre)
  case Nil
  then have j: "urljoin L base p = Inr (c p)" by simp
  obtain l where "safe_head W (JStr (c p)) = (Inr True, l)"
    using Nil(3) by (cases "safe_head W (JStr (c p))") (simp add: reachable_def)
  moreover from this have "heads l = [c p]"
    using heads_safe_head [of W "c p"] by simp
  ultimately show ?case
    by (simp add: j io_lib_def)
next
  case (Cons q pre)
  then have j: "urljoin L base q = Inr (c q)" by simp
  obtain b l where b: "safe_head W (JStr (c q)) = (Inr b, l)"
    by (rule safe_head_cases)
  with Cons(3) have nb: "\<not> b" by (simp add: reachable_def)
  from b have h: "heads l = [c q]"
    using heads_safe_head [of W "c q"] by simp
  from Cons have ih: "fst (try_paths L W base (pre @ p # post)) = Inr (Some (c p))
       \<and> heads (snd (try_paths L W base (pre @ p # post))) = map c (pre @ [p])"
    by simp
  show ?case
    by (simp add: j b nb h ih io_lib_def)
qed

lemma discover_unfold:
  "discover_careers_from_domain L W (JStr s) =
     io_bind (try_paths L W (slash s) COMMON_CAREER_PATHS)
       (\<lambda>found. case found of Some candidate \<Rightarrow> io_ret (Some candidate)
                 | None \<Rightarrow> scan_homepage L W (slash s))"
  by (cases "endswith s ''/''")
     (simp_all add: discover_careers_from_domain_def slash_def Let_def cong: option.case_cong)

lemma demo_join_careers:
  "urljoin demo_lib ''https://acme.example/'' ''careers'' = Inr ''https://acme.example/careers''"
  by code_simp

lemma demo_join_jobs:
  "urljoin demo_lib ''https://acme.example/'' ''jobs'' = Inr ''https://acme.example/jobs''"
  by code_simp

lemma demo_reach_careers: "\<not> reachable demo_world ''https://acme.example/careers''"
  by (simp add: reachable_def safe_head_eq demo_world_def)

lemma demo_reach_jobs: "reachable demo_world ''https://acme.example/jobs''"
  by (simp add: reachable_def safe_head_eq demo_world_def)

text \<open>
  Claim C6. \<open>discover_careers_from_domain\<close> joins the fixed suffixes careers, jobs,
  company/careers, about/careers, about-us/careers, career, join-us, work-with-us, in this
  order, to the base with its trailing slash, probes each candidate and returns the first
  reachable one: when the candidates of the suffixes before \<open>p\<close> are unreachable and the
  candidate of \<open>p\<close> is reachable, the result is the candidate of \<open>p\<close>, and the HEAD
  requests sent are those of the candidates up to \<open>p\<close>, in the order of the list, and of no
  other URL. So when exactly one suffix is reachable its joined URL is returned.
\<close>

theorem discover_first_reachable:
  assumes "COMMON_CAREER_PATHS = pre @ p # post"
    and "\<forall>q \<in> set (pre @ [p]). urljoin L (slash d) q = Inr (c q)"
    and "\<forall>q \<in> set pre. \<not> reachable W (c q)"
    and "reachable W (c p)"
  shows "COMMON_CAREER_PATHS =
           [''careers'', ''jobs'', ''company/careers'', ''about/careers'', ''about-us/careers'',
            ''career'', ''join-us'', ''work-with-us'']
       \<and> fst (discover_careers_from_domain L W (JStr d)) = Inr (Some (c p))
       \<and> heads (snd (discover_careers_from_domain L W (JStr d))) = map c (pre @ [p])"
proof -
  have tp: "fst (try_paths L W (slash d) (pre @ p # post)) = Inr (Some (c p))
       \<and> heads (snd (try_paths L W (slash d) (pre @ p # post))) = map c (pre @ [p])"
    using assms(2-4) by (rule try_paths_first)
  have d: "discover_careers_from_domain L W (JStr d) =
      io_bind (try_paths L W (slash d) (pre @ p # post))
        (\<lambda>found. case found of Some candidate \<Rightarrow> io_ret (Some candidate)
                  | None \<Rightarrow> scan_homepage L W (slash d))"
    by (simp add: discover_unfold assms(1))
  have "fst (discover_careers_from_domain L W (JStr d)) = Inr (Some (c p))"
    by (simp add: d fst_io_bind tp)
  moreover have "heads (snd (discover_careers_from_domain L W (JStr d))) = map c (pre @ [p])"
    by (simp add: d snd_io_bind tp)
  ultimately show ?thesis
    by (simp add: COMMON_CAREER_PATHS_def)
qed

theorem discover_first_reachable_witness:
  "fst (discover_careers_from_domain demo_lib demo_world (JStr ''https://acme.example''))
     = Inr (Some ''https://acme.example/jobs'')
   \<and> heads (snd (discover_careers_from_domain demo_lib demo_world (JStr ''https://acme.example'')))
     = [''https://acme.example/careers'', ''https://acme.example/jobs'']"
  using discover_first_reachable [of "[''careers'']" "''jobs''"
      "[''company/careers'', ''about/careers'', ''about-us/careers'', ''career'', ''join-us'', ''work-with-us'']"
      demo_lib "''https://acme.example''" "\<lambda>q. ''https://acme.example/'' @ q" demo_world]
  by (simp add: COMMON_CAREER_PATHS_def slash_def endswith_def demo_join_careers demo_join_jobs
      demo_reach_careers demo_reach_jobs)

subsection \<open>Search fallback\<close>

lemma search_probes_probes: "list_all is_probe (search_probes L W q)"
  by (simp add: search_probes_def safe_head_probes split: option.splits)

lemma probes_no_search: "list_all is_probe l \<Longrightarrow> \<not> list_ex is_search l"
proof (induction l)
  case Nil
  show ?case by simp
next
  case (Cons e l)
  then show ?case by (cases e) simp_all
qed

lemma search_step:
  "io_bind (ddg_first_result L W q) (\<lambda>found.
      if truthy (of_opt found)
      then io_bind (safe_head W (of_opt found)) (\<lambda>ok. io_ret (if ok then of_opt found else old))
      else io_ret old)
   = (Inr (accepted L W q old), SEARCH q # search_probes L W q)"
proof (cases "first_link L W q")
  case None
  then show ?thesis
    by (simp add: ddg_first_result_eq accepted_def search_probes_def)
next
  case (Some h)
  obtain b l where b: "safe_head W (JStr h) = (Inr b, l)"
    by (rule safe_head_cases)
  show ?thesis
    by (simp add: ddg_first_result_eq accepted_def search_probes_def Some b reachable_def)
qed

lemma search_fallback_eq:
  "search_fallback L W hint official careers =
     (Inr (if truthy official then official else accepted L W (hint @ '' official site'') official,
           if truthy careers then careers else accepted L W (hint @ '' careers site'') careers),
      (if truthy official then []
       else SEARCH (hint @ '' official site'') # search_probes L W (hint @ '' official site''))
      @ (if truthy careers then []
         else SEARCH (hint @ '' careers site'') # search_probes L W (hint @ '' careers site'')))"
  by (simp add: search_fallback_def search_step io_ret_def)

lemma demo_hooli_code:
  "search_fallback demo_lib demo_world ''hooli'' JNull JNull =
     (Inr (JNull, JStr ''https://hooli.example/careers''),
      [SEARCH ''hooli official site'', HEAD ''https://a.example/'', GET ''https://a.example/'',
       SEARCH ''hooli careers site'', HEAD ''https://hooli.example/careers''])"
  by code_simp

lemma demo_hooli_spec:
  "spec_first_reachable demo_lib demo_world ''hooli official site'' JNull = JStr ''https://b.example/''"
  by code_simp

text \<open>
  Claim C4, as amended. In the search fallback, when no official site has been found the
  query "{hint} official site" is issued, and its first result link (the first result
  anchor whose \<^verbatim>\<open>href\<close> names http or https) is accepted as official if it is reachable;
  when no careers URL has been found the query "{hint} careers site" is issued, and its
  first result link is accepted as careers if it is reachable. A field that has been found
  is kept and its query is not issued. Only the first result link is probed: when it is
  unreachable the field stays as it was, whatever the later results are.
\<close>

theorem search_fallback_first_link:
  "search_fallback L W hint official careers =
     (Inr (if truthy official then official else accepted L W (hint @ '' official site'') official,
           if truthy careers then careers else accepted L W (hint @ '' careers site'') careers),
      (if truthy official then []
       else SEARCH (hint @ '' official site'') # search_probes L W (hint @ '' official site''))
      @ (if truthy careers then []
         else SEARCH (hint @ '' careers site'') # search_probes L W (hint @ '' careers site'')))"
  by (rule search_fallback_eq)

theorem search_fallback_first_link_witness:
  "search_fallback demo_lib demo_world ''hooli'' JNull JNull =
     (Inr (JNull, JStr ''https://hooli.example/careers''),
      [SEARCH ''hooli official site'', HEAD ''https://a.example/'', GET ''https://a.example/'',
       SEARCH ''hooli careers site'', HEAD ''https://hooli.example/careers''])
   \<and> accepted demo_lib demo_world ''hooli official site'' JNull = JNull
   \<and> accepted demo_lib demo_world ''hooli careers site'' JNull = JStr ''https://hooli.example/careers''"
  using search_fallback_first_link [of demo_lib demo_world "''hooli''" JNull JNull]
  by (simp add: demo_hooli_code)

text \<open>
  The claim as it was stated accepts the first reachable result. In the scenario the search
  for the official site of "hooli" has two results, the first unreachable and the second
  reachable: the code accepts neither.
\<close>

theorem search_fallback_first_reachable_counterexample:
  "fst (search_fallback demo_lib demo_world ''hooli'' JNull JNull)
     \<noteq> Inr (spec_first_reachable demo_lib demo_world ''hooli official site'' JNull,
            spec_first_reachable demo_lib demo_world ''hooli careers site'' JNull)"
  by (simp add: demo_hooli_code demo_hooli_spec)

subsection \<open>Resolution Orchestrator: without a client\<close>

lemma is_valid_url_eq:
  "is_valid_url L url =
     (Inr (case urlparse L url of
             Inl e \<Rightarrow> False
           | Inr p \<Rightarrow> (scheme p = ''http'' \<or> scheme p = ''https'') \<and> netloc p \<noteq> []), [])"
  by (cases "urlparse L url") (simp_all add: is_valid_url_def io_lib_def io_ret_def)

lemma best_urls_not_url:
  assumes "is_valid_url L t = (Inr False, [])"
    and "find (\<lambda>(key, domain). contains key (normalize_company L t)) POPULAR_DOMAINS = None"
  shows "best_urls_from_all_signals L W t =
     io_bind (openai_guess_company_and_urls L W t) (\<lambda>ai.
     io_bind (ask_openai L W ai) (\<lambda>(official, careers).
     io_bind (search_fallback L W (normalize_company L t) official careers) (\<lambda>(official, careers).
     io_ret (official, careers,
       [(''hint'', DStr (normalize_company L t)), (''openai_raw'', DDict ai)]))))"
  using assms by (simp add: best_urls_from_all_signals_def Let_def)

lemma ask_openai_empty: "ask_openai L W [] = (Inr (JNull, JNull), [])"
  by (simp add: ask_openai_def dict_get_def io_ret_def)

lemma demo_nokey_key: "openai_api_key demo_nokey = []"
  by (simp add: demo_nokey_def)

lemma demo_hooli_valid: "is_valid_url demo_lib ''Hooli'' = (Inr False, [])"
  by code_simp

lemma demo_hooli_hint: "normalize_company demo_lib ''Hooli'' = ''hooli''"
  by code_simp

lemma demo_hooli_find:
  "find (\<lambda>(key, domain). contains key (normalize_company demo_lib ''Hooli'')) POPULAR_DOMAINS = None"
  by code_simp

lemma demo_nokey_accepted1: "accepted demo_lib demo_nokey ''hooli official site'' JNull = JNull"
  by code_simp

lemma demo_nokey_accepted2:
  "accepted demo_lib demo_nokey ''hooli careers site'' JNull = JStr ''https://hooli.example/careers''"
  by code_simp

lemma demo_nokey_probes1:
  "search_probes demo_lib demo_nokey ''hooli official site''
     = [HEAD ''https://a.example/'', GET ''https://a.example/'']"
  by code_simp

lemma demo_nokey_probes2:
  "search_probes demo_lib demo_nokey ''hooli careers site'' = [HEAD ''https://hooli.example/careers'']"
  by code_simp

text \<open>
  Claim C9. When no API client is configured (the API key is empty or missing), the
  resolver returns the empty dict at once and sends none of its three requests. For an
  input that is no URL and matches no popular key, the orchestrator's step 2 then
  contributes nothing and the resolution is the search fallback alone: both queries are
  issued, each field is what the fallback accepts for its query, and the debug dict records
  the hint and the empty answer.
\<close>

theorem no_client_search_only:
  assumes "openai_api_key W = []"
  shows "openai_guess_company_and_urls L W t = (Inr [], [])
       \<and> (is_valid_url L t = (Inr False, [])
          \<and> find (\<lambda>(key, domain). contains key (normalize_company L t)) POPULAR_DOMAINS = None
          \<longrightarrow> best_urls_from_all_signals L W t =
                (Inr (accepted L W (normalize_company L t @ '' official site'') JNull,
                      accepted L W (normalize_company L t @ '' careers site'') JNull,
                      [(''hint'', DStr (normalize_company L t)), (''openai_raw'', DDict [])]),
                 SEARCH (normalize_company L t @ '' official site'')
                   # search_probes L W (normalize_company L t @ '' official site'')
                   @ SEARCH (normalize_company L t @ '' careers site'')
                   # search_probes L W (normalize_company L t @ '' careers site'')))"
proof -
  have g: "openai_guess_company_and_urls L W t = (Inr [], [])"
    using assms by (simp add: openai_guess_eq)
  show ?thesis
    by (simp add: g best_urls_not_url ask_openai_empty search_fallback_eq io_ret_def)
qed

theorem no_client_search_only_witness:
  "openai_guess_company_and_urls demo_lib demo_nokey ''Hooli'' = (Inr [], [])
   \<and> best_urls_from_all_signals demo_lib demo_nokey ''Hooli'' =
       (Inr (JNull, JStr ''https://hooli.example/careers'',
             [(''hint'', DStr ''hooli''), (''openai_raw'', DDict [])]),
        [SEARCH ''hooli official site'', HEAD ''https://a.example/'', GET ''https://a.example/'',
         SEARCH ''hooli careers site'', HEAD ''https://hooli.example/careers''])"
proof -
  note spec = no_client_search_only [of demo_nokey demo_lib "''Hooli''", OF demo_nokey_key]
  from spec have g: "openai_guess_company_and_urls demo_lib demo_nokey ''Hooli'' = (Inr [], [])"
    by (rule conjunct1)
  from spec demo_hooli_valid demo_hooli_find
  have "best_urls_from_all_signals demo_lib demo_nokey ''Hooli'' =
      (Inr (accepted demo_lib demo_nokey (normalize_company demo_lib ''Hooli'' @ '' official site'') JNull,
            accepted demo_lib demo_nokey (normalize_company demo_lib ''Hooli'' @ '' careers site'') JNull,
            [(''hint'', DStr (normalize_company demo_lib ''Hooli'')), (''openai_raw'', DDict [])]),
       SEARCH (normalize_company demo_lib ''Hooli'' @ '' official site'')
         # search_probes demo_lib demo_nokey (normalize_company demo_lib ''Hooli'' @ '' official site'')
         @ SEARCH (normalize_company demo_lib ''Hooli'' @ '' careers site'')
         # search_probes demo_lib demo_nokey (normalize_company demo_lib ''Hooli'' @ '' careers site''))"
    by blast
  then have "best_urls_from_all_signals demo_lib demo_nokey ''Hooli'' =
       (Inr (JNull, JStr ''https://hooli.example/careers'',
             [(''hint'', DStr ''hooli''), (''openai_raw'', DDict [])]),
        [SEARCH ''hooli official site'', HEAD ''https://a.example/'', GET ''https://a.example/'',
         SEARCH ''hooli careers site'', HEAD ''https://hooli.example/careers''])"
    by (simp add: demo_hooli_hint demo_nokey_accepted1 demo_nokey_accepted2
        demo_nokey_probes1 demo_nokey_probes2)
  with g show ?thesis by simp
qed

subsection \<open>Resolution Orchestrator: the careers URL of the model\<close>

lemma openai_guess_no_search:
  "\<not> list_ex is_search (snd (openai_guess_company_and_urls L W t))"
  by (simp add: openai_guess_eq split: option.splits)

lemma ask_openai_kept:
  assumes "truthy (dict_get ai ''official_website'')" and "truthy (dict_get ai ''careers_url'')"
    and o: "safe_head W (dict_get ai ''official_website'') = (Inr True, l1)"
    and c: "safe_head W (dict_get ai ''careers_url'') = (Inr False, l2)"
    and d: "discover_careers_from_domain L W (dict_get ai ''official_website'') = (Inr found, l3)"
    and "\<not> truthy (of_opt found)"
  shows "ask_openai L W ai
       = (Inr (dict_get ai ''official_website'', dict_get ai ''careers_url''), l1 @ l2 @ l3)"
  using assms(1,2,6) by (simp add: ask_openai_def o c d io_ret_def)

lemma demo_globex_valid: "is_valid_url demo_lib ''Globex'' = (Inr False, [])"
  by code_simp

lemma demo_globex_hint: "normalize_company demo_lib ''Globex'' = ''globex''"
  by code_simp

lemma demo_globex_find:
  "find (\<lambda>(key, domain). contains key (normalize_company demo_lib ''Globex'')) POPULAR_DOMAINS = None"
  by code_simp

lemma demo_globex_guess:
  "fst (openai_guess_company_and_urls demo_lib demo_world ''Globex'') =
     Inr [(''company'', JStr ''Globex''), (''official_website'', JStr ''https://globex.example''),
          (''careers_url'', JStr ''https://globex.example/hiring'')]"
  by code_simp

lemma demo_globex_official: "fst (safe_head demo_world (JStr ''https://globex.example'')) = Inr True"
  by code_simp

lemma demo_globex_careers:
  "fst (safe_head demo_world (JStr ''https://globex.example/hiring'')) = Inr False"
  by code_simp

lemma demo_globex_discover:
  "fst (discover_careers_from_domain demo_lib demo_world (JStr ''https://globex.example'')) = Inr None"
  by code_simp

text \<open>
  Claim C10. In step 2 of the orchestrator (the input is no URL and matches no popular
  key), when the resolver returns a non-empty careers URL that fails the reachability
  probe, its official site is there and reachable, and the Careers-Path Discoverer finds
  nothing on the official site, the unreachable careers URL of the resolver is the final
  careers result, and no search is issued: the careers search is skipped because the
  careers field is not empty (and the official search because the official site is there).
\<close>

theorem llm_careers_kept:
  assumes nv: "is_valid_url L t = (Inr False, [])"
    and np: "find (\<lambda>(key, domain). contains key (normalize_company L t)) POPULAR_DOMAINS = None"
    and ai: "fst (openai_guess_company_and_urls L W t) = Inr ai"
    and to: "truthy (dict_get ai ''official_website'')"
    and tc: "truthy (dict_get ai ''careers_url'')"
    and ro: "fst (safe_head W (dict_get ai ''official_website'')) = Inr True"
    and rc: "fst (safe_head W (dict_get ai ''careers_url'')) = Inr False"
    and di: "fst (discover_careers_from_domain L W (dict_get ai ''official_website'')) = Inr found"
    and nf: "\<not> truthy (of_opt found)"
  shows "\<exists>log. best_urls_from_all_signals L W t =
           (Inr (dict_get ai ''official_website'', dict_get ai ''careers_url'',
                 [(''hint'', DStr (normalize_company L t)), (''openai_raw'', DDict ai)]), log)
         \<and> \<not> list_ex is_search log"
proof -
  obtain l0 where g: "openai_guess_company_and_urls L W t = (Inr ai, l0)"
    using ai by (cases "openai_guess_company_and_urls L W t") simp
  have s0: "\<not> list_ex is_search l0"
    using openai_guess_no_search [of L W t] by (simp add: g)
  obtain l1 where o: "safe_head W (dict_get ai ''official_website'') = (Inr True, l1)"
    using ro by (cases "safe_head W (dict_get ai ''official_website'')") simp
  obtain l2 where c: "safe_head W (dict_get ai ''careers_url'') = (Inr False, l2)"
    using rc by (cases "safe_head W (dict_get ai ''careers_url'')") simp
  obtain l3 where d: "discover_careers_from_domain L W (dict_get ai ''official_website'') = (Inr found, l3)"
    using di by (cases "discover_careers_from_domain L W (dict_get ai ''official_website'')") simp
  have s1: "\<not> list_ex is_search l1"
    using safe_head_probes [of W "dict_get ai ''official_website''"] by (simp add: o probes_no_search)
  have s2: "\<not> list_ex is_search l2"
    using safe_head_probes [of W "dict_get ai ''careers_url''"] by (simp add: c probes_no_search)
  have s3: "\<not> list_ex is_search l3"
    using discover_probes [of L W "dict_get ai ''official_website''"] by (simp add: d probes_no_search)
  have a: "ask_openai L W ai
       = (Inr (dict_get ai ''official_website'', dict_get ai ''careers_url''), l1 @ l2 @ l3)"
    using to tc o c d nf by (rule ask_openai_kept)
  have "best_urls_from_all_signals L W t =
           (Inr (dict_get ai ''official_website'', dict_get ai ''careers_url'',
                 [(''hint'', DStr (normalize_company L t)), (''openai_raw'', DDict ai)]),
            l0 @ l1 @ l2 @ l3)"
    using to tc by (simp add: best_urls_not_url [OF nv np] g a search_fallback_eq io_ret_def)
  moreover have "\<not> list_ex is_search (l0 @ l1 @ l2 @ l3)"
    using s0 s1 s2 s3 by simp
  ultimately show ?thesis by blast
qed

theorem llm_careers_kept_witness:
  "\<exists>log. best_urls_from_all_signals demo_lib demo_world ''Globex'' =
           (Inr (JStr ''https://globex.example'', JStr ''https://globex.example/hiring'',
                 [(''hint'', DStr ''globex''),
                  (''openai_raw'', DDict [(''company'', JStr ''Globex''),
                     (''official_website'', JStr ''https://globex.example''),
                     (''careers_url'', JStr ''https://globex.example/hiring'')])]), log)
         \<and> \<not> list_ex is_search log"
  using llm_careers_kept [of demo_lib "''Globex''" demo_world
      "[(''company'', JStr ''Globex''), (''official_website'', JStr ''https://globex.example''),
        (''careers_url'', JStr ''https://globex.example/hiring'')]" None,
      OF demo_globex_valid demo_globex_find demo_globex_guess]
  by (simp add: dict_get_def demo_globex_official demo_globex_careers demo_globex_discover
      demo_globex_hint)

subsection \<open>Resolution Orchestrator: the popular-domain shortcut\<close>

text \<open>\<open>contains\<close> is the substring test.\<close>

lemma contains_iff: "contains x s \<longleftrightarrow> (\<exists>a b. s = a @ x @ b)"
proof (induction s)
  case Nil
  show ?case by auto
next
  case (Cons c s)
  have p: "take (length x) (c # s) = x \<longleftrightarrow> (\<exists>b. c # s = x @ b)"
  proof
    assume "take (length x) (c # s) = x"
    then have "c # s = x @ drop (length x) (c # s)"
      by (metis append_take_drop_id)
    then show "\<exists>b. c # s = x @ b" ..
  next
    assume "\<exists>b. c # s = x @ b"
    then show "take (length x) (c # s) = x" by auto
  qed
  show ?case
  proof
    assume "contains x (c # s)"
    then consider "\<exists>b. c # s = x @ b" | "\<exists>a b. s = a @ x @ b"
      using p Cons by auto
    then show "\<exists>a b. c # s = a @ x @ b"
    proof cases
      case 1
      then obtain b where "c # s = [] @ x @ b" by auto
      then show ?thesis by blast
    next
      case 2
      then obtain a b where "c # s = (c # a) @ x @ b" by auto
      then show ?thesis by blast
    qed
  next
    assume "\<exists>a b. c # s = a @ x @ b"
    then obtain a b where ab: "c # s = a @ x @ b" by blast
    show "contains x (c # s)"
    proof (cases a)
      case Nil
      with ab have "\<exists>b. c # s = x @ b" by auto
      with p have "take (length x) (c # s) = x" by blast
      then show ?thesis by simp
    next
      case (Cons c' a')
      with ab have "s = a' @ x @ b" by simp
      then show ?thesis using Cons.IH by auto
    qed
  qed
qed

lemma find_first:
  assumes "\<forall>y \<in> set pre. \<not> P y" and "P x"
  shows "find P (pre @ x # post) = Some x"
  using assms by (induction pre) simp_all

lemma popular_map_returns:
  assumes "joins L (slash domain)"
  shows "\<exists>careers log. popular_map L W key domain =
           (Inr (JStr domain, careers, [(''mode'', DStr ''popular_map'')]), log)"
proof -
  obtain r where "fst (discover_careers_from_domain L W (JStr domain)) = Inr r"
    using discover_returns [OF assms] by blast
  then obtain l where d: "discover_careers_from_domain L W (JStr domain) = (Inr r, l)"
    by (cases "discover_careers_from_domain L W (JStr domain)") simp
  show ?thesis
    by (simp add: popular_map_def d ddg_first_result_eq io_ret_def)
qed

lemma best_urls_popular:
  assumes "is_valid_url L t = (Inr False, [])"
    and "find (\<lambda>(key, domain). contains key (normalize_company L t)) POPULAR_DOMAINS = Some (key, domain)"
  shows "best_urls_from_all_signals L W t = popular_map L W key domain"
  using assms by (simp add: best_urls_from_all_signals_def Let_def)

lemma demo_nvidia_valid: "is_valid_url demo_lib ''Nvidia'' = (Inr False, [])"
  by code_simp

lemma demo_nvidia_miss:
  "list_all (\<lambda>(k, d). \<not> contains k (normalize_company demo_lib ''Nvidia''))
     [(''google'', ''https://about.google''), (''microsoft'', ''https://www.microsoft.com''),
      (''apple'', ''https://www.apple.com''), (''amazon'', ''https://www.amazon.com''),
      (''meta'', ''https://about.meta.com''), (''netflix'', ''https://www.netflix.com''),
      (''tesla'', ''https://www.tesla.com'')]"
  by code_simp

lemma demo_nvidia_hint: "contains ''nvidia'' (normalize_company demo_lib ''Nvidia'')"
  by code_simp

lemma demo_nvidia_joins: "joins demo_lib (slash ''https://www.nvidia.com'')"
  by code_simp

lemma demo_meta_valid: "is_valid_url demo_lib ''Meta vs Google Inc.'' = (Inr False, [])"
  by code_simp

lemma demo_meta_google: "contains ''google'' (normalize_company demo_lib ''Meta vs Google Inc.'')"
  by code_simp

lemma demo_meta_meta: "contains ''meta'' (normalize_company demo_lib ''Meta vs Google Inc.'')"
  by code_simp

lemma demo_meta_joins: "joins demo_lib (slash ''https://about.google'')"
  by code_simp

lemma demo_meta_official:
  "official_of (best_urls_from_all_signals demo_lib demo_world ''Meta vs Google Inc.'')
     = Some (JStr ''https://about.google'')"
  by code_simp

text \<open>
  Claim C3, as amended. For every input that is not itself a valid URL and whose normalized
  hint contains a key of the popular-domain table as a substring, the official result of
  the orchestrator is the homepage that the table maps the first such key to, in the order
  of the table, whatever the reachability probes, the homepage scan and the search give.
  The URL library is taken to join the fixed suffixes to that homepage without an error,
  as urllib does. In particular the input "Nvidia" yields the official site
  \<^verbatim>\<open>https://www.nvidia.com\<close> in every world.
\<close>

theorem popular_first_key:
  assumes nv: "is_valid_url L t = (Inr False, [])"
    and tab: "POPULAR_DOMAINS = pre @ (key, domain) # post"
    and miss: "\<forall>(k, d) \<in> set pre. \<not> contains k (normalize_company L t)"
    and hit: "contains key (normalize_company L t)"
    and j: "joins L (slash domain)"
  shows "\<exists>careers log. best_urls_from_all_signals L W t =
           (Inr (JStr domain, careers, [(''mode'', DStr ''popular_map'')]), log)"
proof -
  have "find (\<lambda>(key, domain). contains key (normalize_company L t)) (pre @ (key, domain) # post)
          = Some (key, domain)"
    using miss hit by (intro find_first) auto
  then have f: "find (\<lambda>(key, domain). contains key (normalize_company L t)) POPULAR_DOMAINS
          = Some (key, domain)"
    by (simp add: tab)
  obtain careers log where
    "popular_map L W key domain = (Inr (JStr domain, careers, [(''mode'', DStr ''popular_map'')]), log)"
    using popular_map_returns [OF j] by blast
  then show ?thesis
    by (simp add: best_urls_popular [OF nv f])
qed

theorem popular_first_key_witness:
  "(\<forall>W. \<exists>careers log. best_urls_from_all_signals demo_lib W ''Nvidia'' =
      (Inr (JStr ''https://www.nvidia.com'', careers, [(''mode'', DStr ''popular_map'')]), log))
   \<and> (\<forall>W. \<exists>careers log. best_urls_from_all_signals demo_lib W ''Meta vs Google Inc.'' =
      (Inr (JStr ''https://about.google'', careers, [(''mode'', DStr ''popular_map'')]), log))"
proof (intro conjI allI)
  fix W
  have tab: "POPULAR_DOMAINS =
      [(''google'', ''https://about.google''), (''microsoft'', ''https://www.microsoft.com''),
       (''apple'', ''https://www.apple.com''), (''amazon'', ''https://www.amazon.com''),
       (''meta'', ''https://about.meta.com''), (''netflix'', ''https://www.netflix.com''),
       (''tesla'', ''https://www.tesla.com'')]
      @ (''nvidia'', ''https://www.nvidia.com'')
      # [(''openai'', ''https://openai.com''), (''uber'', ''https://www.uber.com''),
         (''airbnb'', ''https://www.airbnb.com''), (''stripe'', ''https://stripe.com''),
         (''salesforce'', ''https://www.salesforce.com''), (''oracle'', ''https://www.oracle.com'')]"
    by (simp add: POPULAR_DOMAINS_def)
  show "\<exists>careers log. best_urls_from_all_signals demo_lib W ''Nvidia'' =
      (Inr (JStr ''https://www.nvidia.com'', careers, [(''mode'', DStr ''popular_map'')]), log)"
    using demo_nvidia_miss
    by (intro popular_first_key [OF demo_nvidia_valid tab _ demo_nvidia_hint demo_nvidia_joins])
       (simp add: list_all_iff)
next
  fix W
  have tab: "POPULAR_DOMAINS =
      [] @ (''google'', ''https://about.google'')
      # [(''microsoft'', ''https://www.microsoft.com''),
         (''apple'', ''https://www.apple.com''), (''amazon'', ''https://www.amazon.com''),
         (''meta'', ''https://about.meta.com''), (''netflix'', ''https://www.netflix.com''),
         (''tesla'', ''https://www.tesla.com''), (''nvidia'', ''https://www.nvidia.com''),
         (''openai'', ''https://openai.com''), (''uber'', ''https://www.uber.com''),
         (''airbnb'', ''https://www.airbnb.com''), (''stripe'', ''https://stripe.com''),
         (''salesforce'', ''https://www.salesforce.com''), (''oracle'', ''https://www.oracle.com'')]"
    by (simp add: POPULAR_DOMAINS_def)
  show "\<exists>careers log. best_urls_from_all_signals demo_lib W ''Meta vs Google Inc.'' =
      (Inr (JStr ''https://about.google'', careers, [(''mode'', DStr ''popular_map'')]), log)"
    by (intro popular_first_key [OF demo_meta_valid tab _ demo_meta_google demo_meta_joins]) simp
qed

text \<open>
  The claim as it was stated gives the homepage of a key that the hint contains. The hint
  of "Meta vs Google Inc." contains the key "meta", which the table maps to
  \<^verbatim>\<open>https://about.meta.com\<close>; it contains "google" too, which comes first in the table, and
  the official site is that of "google".
\<close>

theorem popular_any_key_counterexample:
  "is_valid_url demo_lib ''Meta vs Google Inc.'' = (Inr False, [])
   \<and> (''meta'', ''https://about.meta.com'') \<in> set POPULAR_DOMAINS
   \<and> contains ''meta'' (normalize_company demo_lib ''Meta vs Google Inc.'')
   \<and> official_of (best_urls_from_all_signals demo_lib demo_world ''Meta vs Google Inc.'')
       \<noteq> Some (JStr ''https://about.meta.com'')"
  by (simp add: demo_meta_valid demo_meta_meta demo_meta_official POPULAR_DOMAINS_def)

subsection \<open>Resolution Orchestrator: the direct URL\<close>

lemma valid_url_parses:
  assumes "is_valid_url L t = (Inr True, [])"
  shows "\<exists>p. urlparse L t = Inr p"
  using assms by (cases "urlparse L t") (simp_all add: is_valid_url_eq)

lemma direct_url_eq:
  assumes "urlparse L t = Inr p" and "t \<noteq> []"
  shows "direct_url L W t =
       (if contains ''career'' (str_lower L (path p)) \<or> contains ''job'' (str_lower L (path p))
        then (Inr (JStr (scheme p @ ''://'' @ netloc p), JStr t, [(''mode'', DStr ''direct_url'')]), [])
        else (case discover_careers_from_domain L W (JStr (scheme p @ ''://'' @ netloc p)) of
                (Inr (Some c), log) \<Rightarrow>
                  (Inr (JStr (scheme p @ ''://'' @ netloc p), JStr (if c \<noteq> [] then c else t),
                        [(''mode'', DStr ''direct_url'')]), log)
              | (Inr None, log) \<Rightarrow>
                  (Inr (JStr (scheme p @ ''://'' @ netloc p), JStr t,
                        [(''mode'', DStr ''direct_url'')]), log)
              | (Inl e, log) \<Rightarrow> (Inl e, log)))"
proof (cases "discover_careers_from_domain L W (JStr (scheme p @ ''://'' @ netloc p))")
  case (Pair r log)
  show ?thesis
  proof (cases r)
    case (Inl e)
    with Pair assms show ?thesis
      by (simp add: direct_url_def io_lib_def io_ret_def Let_def)
  next
    case (Inr maybe)
    with Pair assms show ?thesis
      by (cases maybe) (simp_all add: direct_url_def io_lib_def io_ret_def Let_def py_or_def)
  qed
qed

lemma demo_openai_valid: "is_valid_url demo_lib ''https://openai.com/careers'' = (Inr True, [])"
  by code_simp

lemma demo_openai_path: "contains ''career'' (str_lower demo_lib ''/careers'')"
  by code_simp

lemma demo_acme_valid: "is_valid_url demo_lib ''https://acme.example'' = (Inr True, [])"
  by code_simp

lemma demo_acme_parse:
  "urlparse demo_lib ''https://acme.example'' =
     Inr \<lparr>scheme = ''https'', netloc = ''acme.example'', path = []\<rparr>"
  by code_simp

lemma demo_acme_path:
  "\<not> contains ''career'' (str_lower demo_lib []) \<and> \<not> contains ''job'' (str_lower demo_lib [])"
  by code_simp

lemma demo_acme_discover:
  "discover_careers_from_domain demo_lib demo_world (JStr ''https://acme.example'') =
     (Inr (Some ''https://acme.example/jobs''),
      [HEAD ''https://acme.example/careers'', GET ''https://acme.example/careers'',
       HEAD ''https://acme.example/jobs''])"
  by code_simp

lemma demo_about_valid: "is_valid_url demo_lib ''https://globex.example/about'' = (Inr True, [])"
  by code_simp

lemma demo_about_parse:
  "urlparse demo_lib ''https://globex.example/about'' =
     Inr \<lparr>scheme = ''https'', netloc = ''globex.example'', path = ''/about''\<rparr>"
  by code_simp

lemma demo_about_path:
  "\<not> contains ''career'' (str_lower demo_lib ''/about'')
   \<and> \<not> contains ''job'' (str_lower demo_lib ''/about'')"
  by code_simp

lemma demo_user_official:
  "official_of (best_urls_from_all_signals demo_lib demo_world ''https://user@acme.example/careers'')
     = Some (JStr ''https://user@acme.example'')"
  by code_simp

lemma demo_user_spec:
  "spec_official demo_lib ''https://user@acme.example/careers'' = Some (JStr ''https://acme.example'')"
  by code_simp

text \<open>
  Claim C8, as amended. For every input that is itself a valid URL the orchestrator takes
  the direct branch and sends no request of its own: the official site is the scheme of
  the input, \<^verbatim>\<open>://\<close> and its network location (the host together with the user info and
  the port, when the input has them). If the lower-cased path of the input contains
  "career" or "job", the careers result is the input unchanged and nothing is probed.
  Otherwise the Careers-Path Discoverer runs on the official site: the careers result is
  the URL it returns, and it is the original input when the discoverer returns nothing (or
  an empty string); the log is the discoverer's, and an error that the discoverer raises
  is raised. In particular the input \<^verbatim>\<open>https://openai.com/careers\<close> yields the official site
  \<^verbatim>\<open>https://openai.com\<close> and the input itself as careers page, in every world.
\<close>

theorem direct_url_netloc:
  assumes "is_valid_url L t = (Inr True, [])" and "t \<noteq> []"
  shows "\<exists>p. urlparse L t = Inr p \<and>
     best_urls_from_all_signals L W t =
       (if contains ''career'' (str_lower L (path p)) \<or> contains ''job'' (str_lower L (path p))
        then (Inr (JStr (scheme p @ ''://'' @ netloc p), JStr t, [(''mode'', DStr ''direct_url'')]), [])
        else (case discover_careers_from_domain L W (JStr (scheme p @ ''://'' @ netloc p)) of
                (Inr (Some c), log) \<Rightarrow>
                  (Inr (JStr (scheme p @ ''://'' @ netloc p), JStr (if c \<noteq> [] then c else t),
                        [(''mode'', DStr ''direct_url'')]), log)
              | (Inr None, log) \<Rightarrow>
                  (Inr (JStr (scheme p @ ''://'' @ netloc p), JStr t,
                        [(''mode'', DStr ''direct_url'')]), log)
              | (Inl e, log) \<Rightarrow> (Inl e, log)))"
proof -
  obtain p where p: "urlparse L t = Inr p"
    using valid_url_parses [OF assms(1)] by blast
  have "best_urls_from_all_signals L W t = direct_url L W t"
    by (simp add: best_urls_from_all_signals_def assms(1))
  with direct_url_eq [OF p assms(2)] p show ?thesis
    by simp
qed

theorem direct_url_netloc_witness:
  "(\<forall>W. best_urls_from_all_signals demo_lib W ''https://openai.com/careers'' =
      (Inr (JStr ''https://openai.com'', JStr ''https://openai.com/careers'',
            [(''mode'', DStr ''direct_url'')]), []))
   \<and> best_urls_from_all_signals demo_lib demo_world ''https://acme.example'' =
      (Inr (JStr ''https://acme.example'', JStr ''https://acme.example/jobs'',
            [(''mode'', DStr ''direct_url'')]),
       [HEAD ''https://acme.example/careers'', GET ''https://acme.example/careers'',
        HEAD ''https://acme.example/jobs''])
   \<and> fst (best_urls_from_all_signals demo_lib demo_world ''https://globex.example/about'') =
      Inr (JStr ''https://globex.example'', JStr ''https://globex.example/about'',
           [(''mode'', DStr ''direct_url'')])"
proof (intro conjI allI)
  fix W
  from direct_url_netloc [of demo_lib "''https://openai.com/careers''" W, OF demo_openai_valid]
  show "best_urls_from_all_signals demo_lib W ''https://openai.com/careers'' =
     (Inr (JStr ''https://openai.com'', JStr ''https://openai.com/careers'',
           [(''mode'', DStr ''direct_url'')]), [])"
    by (simp add: demo_urlparse_openai demo_openai_path)
next
  from direct_url_netloc [of demo_lib "''https://acme.example''" demo_world, OF demo_acme_valid]
  show "best_urls_from_all_signals demo_lib demo_world ''https://acme.example'' =
      (Inr (JStr ''https://acme.example'', JStr ''https://acme.example/jobs'',
            [(''mode'', DStr ''direct_url'')]),
       [HEAD ''https://acme.example/careers'', GET ''https://acme.example/careers'',
        HEAD ''https://acme.example/jobs''])"
    using demo_acme_path
    by (simp add: demo_acme_parse demo_acme_discover [simplified])
next
  obtain log where
    d: "discover_careers_from_domain demo_lib demo_world (JStr ''https://globex.example'') = (Inr None, log)"
    using demo_globex_discover
    by (cases "discover_careers_from_domain demo_lib demo_world (JStr ''https://globex.example'')") simp
  from direct_url_netloc [of demo_lib "''https://globex.example/about''" demo_world, OF demo_about_valid]
  show "fst (best_urls_from_all_signals demo_lib demo_world ''https://globex.example/about'') =
      Inr (JStr ''https://globex.example'', JStr ''https://globex.example/about'',
           [(''mode'', DStr ''direct_url'')])"
    using demo_about_path
    by (simp add: demo_about_parse d [simplified])
qed

text \<open>
  The claim as it was stated gives the official site as the scheme plus the host. For the
  input \<^verbatim>\<open>https://user@acme.example/careers\<close> that is \<^verbatim>\<open>https://acme.example\<close>; the code
  returns \<^verbatim>\<open>https://user@acme.example\<close>, with the user info of the input.
\<close>

theorem direct_url_host_counterexample:
  "official_of (best_urls_from_all_signals demo_lib demo_world ''https://user@acme.example/careers'')
     \<noteq> spec_official demo_lib ''https://user@acme.example/careers''"
  by (simp add: demo_user_official demo_user_spec)

subsection \<open>Resolution Orchestrator: what can be raised\<close>

text \<open>
  Every call of the orchestrator is wrapped in a handler, but for the \<^verbatim>\<open>urljoin\<close> in the loop
  over the fixed suffixes. So when \<^verbatim>\<open>urljoin\<close> returns on every base and every fixed suffix,
  the orchestrator returns.
\<close>

lemma discover_reachable_returns:
  assumes "\<And>base. joins L base" and "safe_head W official = (Inr True, l)"
  shows "\<exists>r. fst (discover_careers_from_domain L W official) = Inr r"
proof (cases official)
  case (JStr s)
  then show ?thesis using discover_returns [OF assms(1)] by simp
qed (use assms(2) safe_head_nonstr [of official W] in simp_all)

lemma ask_openai_returns:
  assumes "\<And>base. joins L base"
  shows "\<exists>r. fst (ask_openai L W ai) = Inr r"
proof -
  define official where "official = dict_get ai ''official_website''"
  define careers where "careers = dict_get ai ''careers_url''"
  obtain b l where b: "safe_head W official = (Inr b, l)"
    by (rule safe_head_cases)
  obtain b' l' where b': "safe_head W careers = (Inr b', l')"
    by (rule safe_head_cases)
  show ?thesis
  proof (cases "truthy official \<and> b")
    case False
    then show ?thesis
      by (auto simp: ask_openai_def official_def [symmetric] careers_def [symmetric] b io_ret_def)
  next
    case True
    then obtain r where "fst (discover_careers_from_domain L W official) = Inr r"
      using discover_reachable_returns [OF assms, of W official l] b by auto
    then obtain l'' where d: "discover_careers_from_domain L W official = (Inr r, l'')"
      by (cases "discover_careers_from_domain L W official") simp
    from True show ?thesis
      by (auto simp: ask_openai_def official_def [symmetric] careers_def [symmetric] b b' d io_ret_def)
  qed
qed

lemma best_urls_returns:
  assumes "\<And>base. joins L base"
  shows "\<exists>r. fst (best_urls_from_all_signals L W t) = Inr r"
proof -
  obtain v where v: "is_valid_url L t = (Inr v, [])"
    using is_valid_url_eq [of L t] by blast
  show ?thesis
  proof (cases v)
    case True
    then obtain p where p: "urlparse L t = Inr p"
      using v valid_url_parses [of L t] by auto
    obtain r where "fst (discover_careers_from_domain L W (JStr (scheme p @ ''://'' @ netloc p))) = Inr r"
      using discover_returns [OF assms] by blast
    then obtain l where
      d: "discover_careers_from_domain L W (JStr (scheme p @ ''://'' @ netloc p)) = (Inr r, l)"
      by (cases "discover_careers_from_domain L W (JStr (scheme p @ ''://'' @ netloc p))") simp
    show ?thesis
      using True
      by (simp add: best_urls_from_all_signals_def v direct_url_def p d [simplified] io_lib_def
          io_ret_def Let_def)
  next
    case False
    show ?thesis
    proof (cases "find (\<lambda>(key, domain). contains key (normalize_company L t)) POPULAR_DOMAINS")
      case (Some kd)
      obtain key domain where kd: "kd = (key, domain)" by (cases kd)
      obtain careers log where
        "popular_map L W key domain = (Inr (JStr domain, careers, [(''mode'', DStr ''popular_map'')]), log)"
        using popular_map_returns [OF assms] by blast
      then show ?thesis
        using False by (simp add: best_urls_from_all_signals_def v Some kd Let_def)
    next
      case None
      obtain ai l0 where g: "openai_guess_company_and_urls L W t = (Inr ai, l0)"
        by (cases "openai_guess_company_and_urls L W t")
           (auto simp: openai_guess_eq split: option.splits if_splits)
      obtain oc where "fst (ask_openai L W ai) = Inr oc"
        using ask_openai_returns [OF assms] by blast
      then obtain l1 where a: "ask_openai L W ai = (Inr oc, l1)"
        by (cases "ask_openai L W ai") simp
      obtain official careers where oc: "oc = (official, careers)" by (cases oc)
      have nv: "is_valid_url L t = (Inr False, [])" using v False by simp
      show ?thesis
        by (simp add: best_urls_not_url [OF nv None] g a oc search_fallback_eq io_ret_def)
    qed
  qed
qed

text \<open>
  Claim C2 does not hold of the code. The orchestrator terminates, but it raises when
  \<^verbatim>\<open>urljoin\<close> raises in \<open>discover_careers_from_domain\<close>, which \<^verbatim>\<open>urljoin\<close> does (ValueError)
  on a base whose network location holds one square bracket without the other. In the
  scenario the model answers "Bolt" with the homepage \<^verbatim>\<open>http://user[@bolt.example\<close>, the
  prober reaches it, and the error of \<^verbatim>\<open>urljoin\<close> leaves the orchestrator.
\<close>

theorem best_urls_raises_on_join:
  "best_urls_from_all_signals demo_lib demo_world ''Bolt'' =
     (Inl ValueError, [CHAT_JSON ''Bolt'', HEAD ''http://user[@bolt.example''])"
  by code_simp

end
